theory Spec2Isabelle
  imports Complex_Main
begin

section \<open>The Conviva Experience Insights exporter\<close>

text \<open>
  The repository holds two generations of one program: \<^verbatim>\<open>main.go\<close> scrapes the
  Insights API 3.0 (metrics delivered as named objects), and an earlier \<^verbatim>\<open>main.go\<close>
  scrapes the API 2.6 (metrics delivered as positional arrays). Both have the same
  three functions: \<^verbatim>\<open>getQualityMetriclens\<close> (fetch and parse), \<^verbatim>\<open>updateMetrics\<close>
  (emit) and \<^verbatim>\<open>Collect\<close> (one scrape). The names of the 3.0 file are kept as they
  are (\<open>Collect_v30\<close> apart, whose name is taken in HOL); the names of the 2.6 file
  carry the suffix \<open>_v26\<close>.

  A \<^verbatim>\<open>float64\<close> is modelled as a \<^typ>\<open>real\<close>: the exporter copies the values it
  reads, and the properties below compare such copies.
\<close>

subsection \<open>Go values: errors, panics, how a call ends\<close>

text \<open>
  An \<^verbatim>\<open>error\<close> is known to the exporter by its message only: \<open>New s\<close> is the
  error whose message is \<open>s\<close>, as \<^verbatim>\<open>errors.New(s)\<close> makes it.
\<close>

datatype error = New string

text \<open>
  The ways a call can leave the running process: it returns, \<^verbatim>\<open>log.Fatalln\<close> prints
  its message and exits with status 1, or a run-time panic unwinds the goroutine of the
  collector, which nothing recovers.
\<close>

datatype panic =
    IndexOutOfRange nat nat
  | NilPointerDereference
  | MustPanic string

datatype exit = Returns | Fatal string | Panics panic

datatype 'a run = Done 'a | Fatalln string

text \<open>
  A callback run once for every invocation the library makes, in order; an exit of the
  process inside one invocation ends the iteration.
\<close>

fun each :: "('s \<Rightarrow> 'a \<Rightarrow> 's run) \<Rightarrow> 's \<Rightarrow> 'a list \<Rightarrow> 's run" where
  "each cb s [] = Done s"
| "each cb s (x # xs) =
     (case cb s x of Fatalln m \<Rightarrow> Fatalln m | Done s' \<Rightarrow> each cb s' xs)"

subsection \<open>The JSON reader \<^verbatim>\<open>github.com/buger/jsonparser\<close>\<close>

text \<open>
  The exporter never looks at a byte of the body itself: it hands byte slices to
  \<^verbatim>\<open>jsonparser\<close> and converts some of them with \<^verbatim>\<open>string(b)\<close>. The library is not
  part of the repository, so the exporter is modelled over any implementation of the
  functions it calls; \<open>'b\<close> is the type of byte slices.

  \<^item> \<open>GetString b keys\<close>, \<open>GetFloat b keys\<close>: the value or the error. On an error the Go
    functions return the zero value (\<^verbatim>\<open>""\<close>, \<^verbatim>\<open>0\<close>) beside it.
  \<^item> \<open>ArrayEach b keys\<close>: the arguments \<open>(value, err)\<close> of the invocations of the
    callback, in order. The error that \<^verbatim>\<open>ArrayEach\<close> itself returns is dropped by
    every call in the exporter.
  \<^item> \<open>ObjectEach b keys\<close>: the arguments \<open>(key, value)\<close> of the invocations of the
    callback, in order, the key already converted by \<^verbatim>\<open>string(key)\<close>. Every callback
    of the exporter returns \<^verbatim>\<open>nil\<close>, so the iteration is never cut short by it.
  \<^item> \<open>string_of_bytes b\<close>: the conversion \<^verbatim>\<open>string(b)\<close>.
\<close>

record 'b jsonparser =
  GetString :: "'b \<Rightarrow> string list \<Rightarrow> error + string"
  GetFloat :: "'b \<Rightarrow> string list \<Rightarrow> error + real"
  ArrayEach :: "'b \<Rightarrow> string list \<Rightarrow> ('b \<times> error option) list"
  ObjectEach :: "'b \<Rightarrow> string list \<Rightarrow> (string \<times> 'b) list"
  string_of_bytes :: "'b \<Rightarrow> string"

text \<open>The two results of a Go call \<^verbatim>\<open>v, err := f()\<close>.\<close>

definition str_val :: "error + string \<Rightarrow> string" where
  "str_val r = (case r of Inl e \<Rightarrow> [] | Inr s \<Rightarrow> s)"

definition float_val :: "error + real \<Rightarrow> real" where
  "float_val r = (case r of Inl e \<Rightarrow> 0 | Inr x \<Rightarrow> x)"

definition err_of :: "error + 'a \<Rightarrow> error option" where
  "err_of r = (case r of Inl e \<Rightarrow> Some e | Inr x \<Rightarrow> None)"

subsection \<open>The upstream call\<close>

text \<open>
  \<^verbatim>\<open>http.NewRequest\<close>, \<^verbatim>\<open>client.Do\<close> and \<^verbatim>\<open>ReadAll\<close> are the three calls that can
  fail before a status code and a body are in hand.
\<close>

datatype 'b fetched =
    NewRequestFailed error
  | DoFailed error
  | ReadAllFailed error
  | Fetched int 'b

subsection \<open>The Prometheus client\<close>

text \<open>
  A descriptor is its fully qualified name and its variable labels (the help text plays
  no part in what follows and is left out); a constant metric is a descriptor, a gauge
  value and the label values.
\<close>

record Desc =
  fqName :: string
  variableLabelNames :: "string list"

record ConstMetric =
  desc :: Desc
  gauge :: real
  labelValues :: "string list"

definition namespace :: string where
  "namespace = ''conviva_experience_insights''"

definition BuildFQName :: "string \<Rightarrow> string \<Rightarrow> string \<Rightarrow> string" where
  "BuildFQName ns subsystem name =
     (if name = [] then []
      else if ns \<noteq> [] \<and> subsystem \<noteq> [] then ns @ ''_'' @ subsystem @ ''_'' @ name
      else if ns \<noteq> [] then ns @ ''_'' @ name
      else if subsystem \<noteq> [] then subsystem @ ''_'' @ name
      else name)"

definition NewDesc :: "string \<Rightarrow> string list \<Rightarrow> Desc" where
  "NewDesc fq labels = \<lparr>fqName = fq, variableLabelNames = labels\<rparr>"

definition variableLabels :: "string list" where
  "variableLabels = [''conviva_filter_id'', ''metriclens_dimension_value'']"

definition exporterUp :: Desc where
  "exporterUp = NewDesc (BuildFQName namespace [] ''up'') []"

text \<open>
  \<^verbatim>\<open>utf8.ValidString\<close>: the client refuses a label value that is not valid UTF-8.
\<close>

definition cont :: "char \<Rightarrow> bool" where
  "cont c = (128 \<le> (of_char c :: nat) \<and> (of_char c :: nat) \<le> 191)"

definition between :: "nat \<Rightarrow> char \<Rightarrow> nat \<Rightarrow> bool" where
  "between lo c hi = (lo \<le> (of_char c :: nat) \<and> (of_char c :: nat) \<le> hi)"

fun ValidString :: "string \<Rightarrow> bool" where
  "ValidString [] = True"
| "ValidString [c] = ((of_char c :: nat) < 128)"
| "ValidString [c, c1] =
     (if (of_char c :: nat) < 128 then ValidString [c1]
      else between 194 c 223 \<and> cont c1)"
| "ValidString [c, c1, c2] =
     (if (of_char c :: nat) < 128 then ValidString [c1, c2]
      else if between 194 c 223 then cont c1 \<and> ValidString [c2]
      else (between 224 c 224 \<and> between 160 c1 191 \<and> cont c2)
         \<or> ((between 225 c 236 \<or> between 238 c 239) \<and> cont c1 \<and> cont c2)
         \<or> (between 237 c 237 \<and> between 128 c1 159 \<and> cont c2))"
| "ValidString (c # c1 # c2 # c3 # cs) =
     (if (of_char c :: nat) < 128 then ValidString (c1 # c2 # c3 # cs)
      else if between 194 c 223 then cont c1 \<and> ValidString (c2 # c3 # cs)
      else if between 224 c 224 then between 160 c1 191 \<and> cont c2 \<and> ValidString (c3 # cs)
      else if between 225 c 236 \<or> between 238 c 239 then
        cont c1 \<and> cont c2 \<and> ValidString (c3 # cs)
      else if between 237 c 237 then between 128 c1 159 \<and> cont c2 \<and> ValidString (c3 # cs)
      else if between 240 c 240 then
        between 144 c1 191 \<and> cont c2 \<and> cont c3 \<and> ValidString cs
      else if between 241 c 243 then cont c1 \<and> cont c2 \<and> cont c3 \<and> ValidString cs
      else between 244 c 244 \<and> between 128 c1 143 \<and> cont c2 \<and> cont c3 \<and> ValidString cs)"

text \<open>
  \<^verbatim>\<open>MustNewConstMetric\<close> reads \<^verbatim>\<open>desc.err\<close> first, which is a nil dereference when
  the descriptor is \<^verbatim>\<open>nil\<close>; it panics when the number of label values is not the
  number of variable labels, or when a label value is not valid UTF-8.
\<close>

definition MustNewConstMetric :: "Desc option \<Rightarrow> real \<Rightarrow> string list \<Rightarrow> panic + ConstMetric" where
  "MustNewConstMetric d v lvs =
     (case d of
        None \<Rightarrow> Inl NilPointerDereference
      | Some de \<Rightarrow>
          if length lvs \<noteq> length (variableLabelNames de) then
            Inl (MustPanic ''inconsistent label cardinality'')
          else if \<not> list_all ValidString lvs then
            Inl (MustPanic ''label value is not valid UTF-8'')
          else Inr \<lparr>desc = de, gauge = v, labelValues = lvs\<rparr>)"

text \<open>
  \<^verbatim>\<open>ch <- MustNewConstMetric(...)\<close>: the metric is built first, so a panic leaves the
  channel as it was. The channel is the list of the metrics sent so far.
\<close>

definition send :: "ConstMetric list \<Rightarrow> panic + ConstMetric \<Rightarrow> ConstMetric list \<times> exit" where
  "send ch m = (case m of Inl p \<Rightarrow> (ch, Panics p) | Inr x \<Rightarrow> (ch @ [x], Returns))"

section \<open>API 3.0: \<^verbatim>\<open>main.go\<close>\<close>

subsection \<open>Data\<close>

text \<open>
  \<^verbatim>\<open>metricDescriptions\<close> is a Go map from the metric name to its descriptor; a name
  that is not a key yields the \<^verbatim>\<open>nil\<close> descriptor.
\<close>

definition metricDescriptionsTable :: "(string \<times> Desc) list" where
  "metricDescriptionsTable =
     [(''attempts'', NewDesc (BuildFQName namespace [] ''attempts'') variableLabels),
      (''bitrate'', NewDesc (BuildFQName namespace [] ''average_bitrate'') variableLabels),
      (''connection_induced_rebuffering_ratio'',
         NewDesc (BuildFQName namespace [] ''connection_induced_rebuffering_ratio'') variableLabels),
      (''ended_plays'', NewDesc (BuildFQName namespace [] ''ended_plays'') variableLabels),
      (''exit_before_video_starts'',
         NewDesc (BuildFQName namespace [] ''exits_before_video_start'') variableLabels),
      (''plays'', NewDesc (BuildFQName namespace [] ''plays'') variableLabels),
      (''rebuffering_ratio'', NewDesc (BuildFQName namespace [] ''rebuffering_ratio'') variableLabels),
      (''video_playback_failures'',
         NewDesc (BuildFQName namespace [] ''video_playback_failures'') variableLabels),
      (''video_start_failures'',
         NewDesc (BuildFQName namespace [] ''video_start_failures'') variableLabels),
      (''video_start_time'', NewDesc (BuildFQName namespace [] ''video_start_time'') variableLabels)]"

definition metricDescriptions :: "string \<rightharpoonup> Desc" where
  "metricDescriptions = map_of metricDescriptionsTable"

record Metric =
  metricName :: string
  metricValue :: real

definition NewMetric :: Metric where
  "NewMetric = \<lparr>metricName = [], metricValue = 0\<rparr>"

record Dimension =
  dimensionValue :: string
  metrics :: "Metric list"

definition NewDimension :: Dimension where
  "NewDimension = \<lparr>dimensionValue = [], metrics = []\<rparr>"

record MetricsData =
  filterTitle :: string
  dimensionTitle :: string
  dimensions :: "Dimension list"

definition NewMetricsData :: MetricsData where
  "NewMetricsData = \<lparr>filterTitle = [], dimensionTitle = [], dimensions = []\<rparr>"

subsection \<open>\<^verbatim>\<open>getQualityMetriclens\<close>\<close>

text \<open>
  The assignment \<^verbatim>\<open>metric.value, err = jsonparser.GetFloat(value, field)\<close>. The
  variable \<^verbatim>\<open>err\<close> it writes is the parameter of the enclosing row callback, which
  lives on from one metric entry of the row to the next.
\<close>

definition assignFloat :: "Metric \<Rightarrow> error + real \<Rightarrow> Metric \<times> error option" where
  "assignFloat metric r = (metric\<lparr>metricValue := float_val r\<rparr>, err_of r)"

text \<open>
  The callback of \<^verbatim>\<open>ObjectEach(dimensionalDataRow, ..., "metrics")\<close>. The state is
  \<^verbatim>\<open>err\<close> and the row under construction. In the \<^verbatim>\<open>bitrate\<close> case
  \<^verbatim>\<open>bps, err := ...\<close> declares its own \<^verbatim>\<open>err\<close>, and the value is stored when that
  \<^verbatim>\<open>err\<close> is not \<^verbatim>\<open>nil\<close>.
\<close>

definition metricCallback ::
  "'b jsonparser \<Rightarrow> error option \<times> Dimension \<Rightarrow> string \<times> 'b \<Rightarrow> (error option \<times> Dimension) run" where
  "metricCallback lib st kv =
     (case st of (err, dimension) \<Rightarrow>
      case kv of (name, val) \<Rightarrow>
        if err \<noteq> None then Fatalln ''Could not get time_series[0].dimensional_data.metrics''
        else
          let metric = NewMetric\<lparr>metricName := name\<rparr>;
              (metric, err) =
                (if name = ''attempts'' then assignFloat metric (GetFloat lib val [''count''])
                 else if name = ''bitrate'' then
                   (let r = GetFloat lib val [''bps'']
                    in if err_of r \<noteq> None
                       then (metric\<lparr>metricValue := float_val r / 1000\<rparr>, err)
                       else (metric, err))
                 else if name = ''connection_induced_rebuffering_ratio'' then
                   assignFloat metric (GetFloat lib val [''ratio''])
                 else if name = ''ended_plays'' then
                   assignFloat metric (GetFloat lib val [''count''])
                 else if name = ''exit_before_video_starts'' then
                   assignFloat metric (GetFloat lib val [''percentage''])
                 else if name = ''plays'' then
                   assignFloat metric (GetFloat lib val [''percentage''])
                 else if name = ''rebuffering_ratio'' then
                   assignFloat metric (GetFloat lib val [''ratio''])
                 else if name = ''video_playback_failures'' then
                   assignFloat metric (GetFloat lib val [''percentage''])
                 else if name = ''video_start_failures'' then
                   assignFloat metric (GetFloat lib val [''percentage''])
                 else if name = ''video_start_time'' then
                   assignFloat metric (GetFloat lib val [''value''])
                 else (metric, err))
          in Done (err, dimension\<lparr>metrics := metrics dimension @ [metric]\<rparr>))"

text \<open>
  The callback of \<^verbatim>\<open>ArrayEach(body, ..., "time_series", "[0]", "dimensional_data")\<close>.
  The state is \<^verbatim>\<open>qualityMetriclensData.dimensions\<close>.
\<close>

definition rowCallback ::
  "'b jsonparser \<Rightarrow> Dimension list \<Rightarrow> 'b \<times> error option \<Rightarrow> Dimension list run" where
  "rowCallback lib dims row =
     (case row of (dimensionalDataRow, err) \<Rightarrow>
        if err \<noteq> None then Fatalln ''Could not get time_series[0].dimensional_data''
        else
          let r = GetString lib dimensionalDataRow [''dimension'', ''value''];
              dimension = NewDimension\<lparr>dimensionValue := str_val r\<rparr>;
              err = err_of r
          in if err \<noteq> None then
               Fatalln ''Could not get time_series[0].dimensional_data.dimension.value''
             else
               (case each (metricCallback lib) (err, dimension)
                       (ObjectEach lib dimensionalDataRow [''metrics'']) of
                  Fatalln m \<Rightarrow> Fatalln m
                | Done (err', dimension') \<Rightarrow> Done (dims @ [dimension'])))"

text \<open>
  The parser proper, from the status check on. When the filter id cannot be read the
  code overwrites \<^verbatim>\<open>dimensionName\<close>, which is not read again, and stores
  \<^verbatim>\<open>filterId\<close> as it is.
\<close>

definition parseBody :: "'b jsonparser \<Rightarrow> int \<Rightarrow> 'b \<Rightarrow> (error + MetricsData) run" where
  "parseBody lib StatusCode body =
     (let qualityMetriclensData = NewMetricsData
      in if StatusCode \<noteq> 200 then
           (case GetString lib body [''name''] of
              Inr reason \<Rightarrow> Done (Inl (New (''Invalid response from API. Reason: '' @ reason)))
            | Inl err \<Rightarrow> Done (Inl err))
         else
           let r = GetString lib body [''_meta'', ''group_by_dimension'', ''description''];
               dimensionName = (if err_of r \<noteq> None then ''Unknown'' else str_val r);
               qualityMetriclensData = qualityMetriclensData\<lparr>dimensionTitle := dimensionName\<rparr>;
               r = GetString lib body [''_meta'', ''filter_info'', ''id''];
               filterId = str_val r;
               dimensionName = (if err_of r \<noteq> None then ''Unknown'' else dimensionName);
               qualityMetriclensData = qualityMetriclensData\<lparr>filterTitle := filterId\<rparr>
           in (case each (rowCallback lib) (dimensions qualityMetriclensData)
                       (ArrayEach lib body [''time_series'', ''[0]'', ''dimensional_data'']) of
                 Fatalln m \<Rightarrow> Fatalln m
               | Done dims \<Rightarrow> Done (Inr (qualityMetriclensData\<lparr>dimensions := dims\<rparr>))))"

text \<open>
  The function receives the channel \<^verbatim>\<open>ch\<close> and builds its result in a structure
  allocated by the call.
\<close>

definition getQualityMetriclens ::
  "'b jsonparser \<Rightarrow> ConstMetric list \<Rightarrow> 'b fetched \<Rightarrow> (error + MetricsData) run" where
  "getQualityMetriclens lib ch resp =
     (case resp of
        NewRequestFailed err \<Rightarrow> Done (Inl err)
      | DoFailed err \<Rightarrow> Done (Inl err)
      | ReadAllFailed err \<Rightarrow> Done (Inl err)
      | Fetched StatusCode body \<Rightarrow> parseBody lib StatusCode body)"

subsection \<open>\<^verbatim>\<open>updateMetrics\<close> and \<^verbatim>\<open>Collect\<close>\<close>

text \<open>The loop over \<^verbatim>\<open>k\<close>: the metrics of one row that are still to be sent.\<close>

fun sendMetrics :: "ConstMetric list \<Rightarrow> string \<Rightarrow> string \<Rightarrow> Metric list \<Rightarrow> ConstMetric list \<times> exit" where
  "sendMetrics ch filterId dimValue [] = (ch, Returns)"
| "sendMetrics ch filterId dimValue (metric # ms) =
     (case send ch (MustNewConstMetric (metricDescriptions (metricName metric))
                      (metricValue metric) [filterId, dimValue]) of
        (ch', Returns) \<Rightarrow> sendMetrics ch' filterId dimValue ms
      | (ch', ex) \<Rightarrow> (ch', ex))"

text \<open>The loop over \<^verbatim>\<open>j\<close>: the rows that are still to be sent.\<close>

fun sendDimensions :: "ConstMetric list \<Rightarrow> string \<Rightarrow> Dimension list \<Rightarrow> ConstMetric list \<times> exit" where
  "sendDimensions ch filterId [] = (ch, Returns)"
| "sendDimensions ch filterId (dimension # ds) =
     (case sendMetrics ch filterId (dimensionValue dimension) (metrics dimension) of
        (ch', Returns) \<Rightarrow> sendDimensions ch' filterId ds
      | (ch', ex) \<Rightarrow> (ch', ex))"

definition updateMetrics :: "ConstMetric list \<Rightarrow> MetricsData \<Rightarrow> ConstMetric list \<times> exit" where
  "updateMetrics ch data = sendDimensions ch (filterTitle data) (dimensions data)"

definition Collect_v30 :: "'b jsonparser \<Rightarrow> ConstMetric list \<Rightarrow> 'b fetched \<Rightarrow> ConstMetric list \<times> exit" where
  "Collect_v30 lib ch resp =
     (case getQualityMetriclens lib ch resp of
        Fatalln m \<Rightarrow> (ch, Fatal m)
      | Done (Inl err) \<Rightarrow> send ch (MustNewConstMetric (Some exporterUp) 0 [])
      | Done (Inr qualityMetriclensData) \<Rightarrow>
          (case send ch (MustNewConstMetric (Some exporterUp) 1 []) of
             (ch', Returns) \<Rightarrow> updateMetrics ch' qualityMetriclensData
           | (ch', ex) \<Rightarrow> (ch', ex)))"

section \<open>API 2.6: the earlier \<^verbatim>\<open>main.go\<close>\<close>

subsection \<open>Data\<close>

text \<open>
  Here \<^verbatim>\<open>metricDescriptions\<close> is a slice of fifteen descriptors, read by position.
\<close>

definition metricDescriptions_v26 :: "Desc list" where
  "metricDescriptions_v26 =
     [NewDesc (BuildFQName namespace [] ''attempts'') variableLabels,
      NewDesc (BuildFQName namespace [] ''video_start_failures'') variableLabels,
      NewDesc (BuildFQName namespace [] ''exits_before_video_start'') variableLabels,
      NewDesc (BuildFQName namespace [] ''plays'') variableLabels,
      NewDesc (BuildFQName namespace [] ''video_start_time'') variableLabels,
      NewDesc (BuildFQName namespace [] ''rebuffering_ratio'') variableLabels,
      NewDesc (BuildFQName namespace [] ''average_bitrate'') variableLabels,
      NewDesc (BuildFQName namespace [] ''video_playback_failures'') variableLabels,
      NewDesc (BuildFQName namespace [] ''ended_plays'') variableLabels,
      NewDesc (BuildFQName namespace [] ''connection_induced_rebuffering_ratio'') variableLabels,
      NewDesc (BuildFQName namespace [] ''video_restart_time'') variableLabels,
      NewDesc (BuildFQName namespace [] ''video_start_failures_technical'') variableLabels,
      NewDesc (BuildFQName namespace [] ''video_start_failures_business'') variableLabels,
      NewDesc (BuildFQName namespace [] ''video_playback_failures_technical'') variableLabels,
      NewDesc (BuildFQName namespace [] ''video_playback_failures_business'') variableLabels]"

record Dimension_v26 =
  metrics_v26 :: "real list"

definition NewDimension_v26 :: Dimension_v26 where
  "NewDimension_v26 = \<lparr>metrics_v26 = []\<rparr>"

record FilterTable =
  filterID :: string
  dimensions_v26 :: "Dimension_v26 list"

definition NewFilterTable :: "string \<Rightarrow> FilterTable" where
  "NewFilterTable fid = \<lparr>filterID = fid, dimensions_v26 = []\<rparr>"

record QualityMetricLensData =
  filters :: "FilterTable list"
  dimensionTitles :: "string list"

definition NewQualityMetricLensData :: QualityMetricLensData where
  "NewQualityMetricLensData = \<lparr>filters = [], dimensionTitles = []\<rparr>"

subsection \<open>\<^verbatim>\<open>getQualityMetriclens\<close>\<close>

text \<open>
  The four callbacks, innermost last but one. None of them can end the process, so
  each is a step of a left fold over the invocations.
\<close>

definition warmupCallback :: "bool \<Rightarrow> 'b \<times> error option \<Rightarrow> bool" where
  "warmupCallback isWarmingUp cb = (case cb of (val, err) \<Rightarrow> if err = None then True else isWarmingUp)"

definition titleCallback ::
  "'b jsonparser \<Rightarrow> QualityMetricLensData \<Rightarrow> 'b \<times> error option \<Rightarrow> QualityMetricLensData" where
  "titleCallback lib data cb =
     (case cb of (val, err) \<Rightarrow>
        if err = None then data\<lparr>dimensionTitles := dimensionTitles data @ [string_of_bytes lib val]\<rparr>
        else data)"

definition metricValCallback :: "'b jsonparser \<Rightarrow> real list \<Rightarrow> 'b \<times> error option \<Rightarrow> real list" where
  "metricValCallback lib metricsRow cb =
     (case cb of (metricVal, err) \<Rightarrow>
        if err \<noteq> None then metricsRow
        else (case GetFloat lib metricVal [] of
                Inl err \<Rightarrow> metricsRow
              | Inr metricFloat \<Rightarrow> metricsRow @ [metricFloat]))"

definition dimensionRowCallback ::
  "'b jsonparser \<Rightarrow> FilterTable \<Rightarrow> 'b \<times> error option \<Rightarrow> FilterTable" where
  "dimensionRowCallback lib filterTable cb =
     (case cb of (dimensionRow, err) \<Rightarrow>
        if err \<noteq> None then filterTable
        else
          let dimension = NewDimension_v26;
              metricsRow = foldl (metricValCallback lib) [] (ArrayEach lib dimensionRow []);
              dimension = dimension\<lparr>metrics_v26 := metricsRow\<rparr>
          in filterTable\<lparr>dimensions_v26 := dimensions_v26 filterTable @ [dimension]\<rparr>)"

definition filterCallback ::
  "'b jsonparser \<Rightarrow> 'b \<Rightarrow> QualityMetricLensData \<Rightarrow> string \<times> 'b \<Rightarrow> QualityMetricLensData" where
  "filterCallback lib body data kv =
     (case kv of (key, val) \<Rightarrow>
        let fid = key;
            filterTable = NewFilterTable fid;
            filterTable = foldl (dimensionRowCallback lib) filterTable
                            (ArrayEach lib body [''quality_metriclens'', ''tables'', fid, ''rows''])
        in data\<lparr>filters := filters data @ [filterTable]\<rparr>)"

definition parseBody_v26 :: "'b jsonparser \<Rightarrow> int \<Rightarrow> 'b \<Rightarrow> error + QualityMetricLensData" where
  "parseBody_v26 lib StatusCode body =
     (let qualityMetriclensData = NewQualityMetricLensData
      in if StatusCode \<noteq> 200 then
           (case GetString lib body [''reason''] of
              Inr reason \<Rightarrow> Inl (New (''Invalid response from API. Reason: '' @ reason))
            | Inl err \<Rightarrow> Inl err)
         else
           let isWarmingUp = foldl warmupCallback False
                 (ArrayEach lib body [''quality_metriclens'', ''meta'', ''filters_warmup''])
           in if isWarmingUp then Inl (New ''filter is warming up'')
              else
                let qualityMetriclensData = foldl (titleCallback lib) qualityMetriclensData
                      (ArrayEach lib body [''quality_metriclens'', ''xvalues'']);
                    qualityMetriclensData = foldl (filterCallback lib body) qualityMetriclensData
                      (ObjectEach lib body [''quality_metriclens'', ''tables''])
                in Inr qualityMetriclensData)"

definition getQualityMetriclens_v26 ::
  "'b jsonparser \<Rightarrow> ConstMetric list \<Rightarrow> 'b fetched \<Rightarrow> error + QualityMetricLensData" where
  "getQualityMetriclens_v26 lib ch resp =
     (case resp of
        NewRequestFailed err \<Rightarrow> Inl err
      | DoFailed err \<Rightarrow> Inl err
      | ReadAllFailed err \<Rightarrow> Inl err
      | Fetched StatusCode body \<Rightarrow> parseBody_v26 lib StatusCode body)"

subsection \<open>\<^verbatim>\<open>updateMetrics\<close> and \<^verbatim>\<open>Collect\<close>\<close>

text \<open>
  The three nested loops. Each carries its index, because \<^verbatim>\<open>metricDescriptions[k]\<close>
  and \<^verbatim>\<open>data.dimensionTitles[j]\<close> index slices other than the one the loop runs
  over; an index outside the slice is a run-time panic.
\<close>

fun sendMetrics_v26 ::
  "ConstMetric list \<Rightarrow> string \<Rightarrow> string \<Rightarrow> nat \<Rightarrow> real list \<Rightarrow> ConstMetric list \<times> exit" where
  "sendMetrics_v26 ch fid title k [] = (ch, Returns)"
| "sendMetrics_v26 ch fid title k (v # vs) =
     (if k < length metricDescriptions_v26 then
        (case send ch (MustNewConstMetric (Some (metricDescriptions_v26 ! k)) v [fid, title]) of
           (ch', Returns) \<Rightarrow> sendMetrics_v26 ch' fid title (Suc k) vs
         | (ch', ex) \<Rightarrow> (ch', ex))
      else (ch, Panics (IndexOutOfRange k (length metricDescriptions_v26))))"

fun sendDimensions_v26 ::
  "ConstMetric list \<Rightarrow> string list \<Rightarrow> string \<Rightarrow> nat \<Rightarrow> Dimension_v26 list \<Rightarrow> ConstMetric list \<times> exit" where
  "sendDimensions_v26 ch titles fid j [] = (ch, Returns)"
| "sendDimensions_v26 ch titles fid j (dimension # ds) =
     (if j < length titles then
        (case sendMetrics_v26 ch fid (titles ! j) 0 (metrics_v26 dimension) of
           (ch', Returns) \<Rightarrow> sendDimensions_v26 ch' titles fid (Suc j) ds
         | (ch', ex) \<Rightarrow> (ch', ex))
      else (ch, Panics (IndexOutOfRange j (length titles))))"

fun sendFilters :: "ConstMetric list \<Rightarrow> string list \<Rightarrow> FilterTable list \<Rightarrow> ConstMetric list \<times> exit" where
  "sendFilters ch titles [] = (ch, Returns)"
| "sendFilters ch titles (f # fs) =
     (case sendDimensions_v26 ch titles (filterID f) 0 (dimensions_v26 f) of
        (ch', Returns) \<Rightarrow> sendFilters ch' titles fs
      | (ch', ex) \<Rightarrow> (ch', ex))"

definition updateMetrics_v26 :: "ConstMetric list \<Rightarrow> QualityMetricLensData \<Rightarrow> ConstMetric list \<times> exit" where
  "updateMetrics_v26 ch data = sendFilters ch (dimensionTitles data) (filters data)"

definition Collect_v26 :: "'b jsonparser \<Rightarrow> ConstMetric list \<Rightarrow> 'b fetched \<Rightarrow> ConstMetric list \<times> exit" where
  "Collect_v26 lib ch resp =
     (case getQualityMetriclens_v26 lib ch resp of
        Inl err \<Rightarrow> send ch (MustNewConstMetric (Some exporterUp) 0 [])
      | Inr qualityMetriclensData \<Rightarrow>
          (case send ch (MustNewConstMetric (Some exporterUp) 1 []) of
             (ch', Returns) \<Rightarrow> updateMetrics_v26 ch' qualityMetriclensData
           | (ch', ex) \<Rightarrow> (ch', ex)))"

section \<open>A reader of JSON documents\<close>

text \<open>
  To run the exporter on a concrete response, the library is instantiated on documents
  instead of bytes: a value of type \<open>json\<close> stands for the bytes of its compact
  encoding, and \<open>JJunk s\<close> for bytes \<open>s\<close> that begin no JSON value. A number carries
  its token and the \<^verbatim>\<open>float64\<close> that \<^verbatim>\<open>ParseFloat\<close> reads from it. The functions
  follow the library on such documents: a key path is searched from the outside in,
  \<open>[i]\<close> indexes an array, an iteration stops at the first element that cannot be read,
  and a value of the wrong type is an error that quotes the value.

  The reader stands for the library only on documents whose strings hold no backslash
  (the library unescapes what \<^verbatim>\<open>GetString\<close> returns) and no text that is itself a
  JSON number or array (the library hands a string to the callback without its quotes,
  and a later \<^verbatim>\<open>GetFloat\<close> or \<^verbatim>\<open>ArrayEach\<close> on it reads that text), and whose
  number tokens are within the range of \<^verbatim>\<open>float64\<close>. The responses below are of
  that kind; the general theorems do not use the reader.
\<close>

datatype json =
    JNull
  | JBool bool
  | JNumber string real
  | JString string
  | JArray "json list"
  | JObject "(string \<times> json) list"
  | JJunk string

definition KeyPathNotFoundError :: error where
  "KeyPathNotFoundError = New ''Key path not found''"

definition UnknownValueTypeError :: error where
  "UnknownValueTypeError = New ''Unknown value type''"

fun digit :: "char \<Rightarrow> nat option" where
  "digit c = (if between 48 c 57 then Some (of_char c - 48) else None)"

fun digits :: "nat \<Rightarrow> string \<Rightarrow> nat option" where
  "digits n [] = Some n"
| "digits n (c # cs) = (case digit c of None \<Rightarrow> None | Some d \<Rightarrow> digits (10 * n + d) cs)"

text \<open>The index of a key of the form \<open>[i]\<close>.\<close>

definition arrayIndex :: "string \<Rightarrow> nat option" where
  "arrayIndex k =
     (if 3 \<le> length k \<and> hd k = CHR ''['' \<and> last k = CHR '']''
      then digits 0 (butlast (tl k)) else None)"

fun isJunk :: "json \<Rightarrow> bool" where
  "isJunk (JJunk s) = True"
| "isJunk j = False"

fun docGet :: "json \<Rightarrow> string list \<Rightarrow> error + json" where
  "docGet j [] = (if isJunk j then Inl UnknownValueTypeError else Inr j)"
| "docGet (JObject kvs) (k # ks) =
     (case map_of kvs k of None \<Rightarrow> Inl KeyPathNotFoundError | Some v \<Rightarrow> docGet v ks)"
| "docGet (JArray xs) (k # ks) =
     (case arrayIndex k of
        None \<Rightarrow> Inl KeyPathNotFoundError
      | Some i \<Rightarrow> if i < length xs then docGet (xs ! i) ks else Inl KeyPathNotFoundError)"
| "docGet j (k # ks) = Inl KeyPathNotFoundError"

text \<open>
  The compact encoding of a document, and the bytes of a value as \<^verbatim>\<open>Get\<close>
  returns them: a string without its quotes, anything else as it is encoded.
\<close>

fun commas :: "string list \<Rightarrow> string" where
  "commas [] = []"
| "commas [s] = s"
| "commas (s # t # ss) = s @ '','' @ commas (t # ss)"

definition quoted :: "string \<Rightarrow> string" where
  "quoted s = [CHR 0x22] @ s @ [CHR 0x22]"

fun encode :: "json \<Rightarrow> string" where
  "encode JNull = ''null''"
| "encode (JBool b) = (if b then ''true'' else ''false'')"
| "encode (JNumber tok x) = tok"
| "encode (JString s) = quoted s"
| "encode (JArray xs) = ''['' @ commas (map encode xs) @ '']''"
| "encode (JObject kvs) = ''{'' @ commas (map (\<lambda>(k, v). quoted k @ '':'' @ encode v) kvs) @ ''}''"
| "encode (JJunk s) = s"

definition docBytes :: "json \<Rightarrow> string" where
  "docBytes j = (case j of JString s \<Rightarrow> s | _ \<Rightarrow> encode j)"

definition docGetString :: "json \<Rightarrow> string list \<Rightarrow> error + string" where
  "docGetString j ks =
     (case docGet j ks of
        Inl e \<Rightarrow> Inl e
      | Inr (JString s) \<Rightarrow> Inr s
      | Inr v \<Rightarrow> Inl (New (''Value is not a string: '' @ docBytes v)))"

definition docGetFloat :: "json \<Rightarrow> string list \<Rightarrow> error + real" where
  "docGetFloat j ks =
     (case docGet j ks of
        Inl e \<Rightarrow> Inl e
      | Inr (JNumber tok x) \<Rightarrow> Inr x
      | Inr v \<Rightarrow> Inl (New (''Value is not a number: '' @ docBytes v)))"

definition docArrayEach :: "json \<Rightarrow> string list \<Rightarrow> (json \<times> error option) list" where
  "docArrayEach j ks =
     (case docGet j ks of
        Inr (JArray xs) \<Rightarrow> map (\<lambda>v. (v, None)) (takeWhile (\<lambda>v. \<not> isJunk v) xs)
      | _ \<Rightarrow> [])"

definition docObjectEach :: "json \<Rightarrow> string list \<Rightarrow> (string \<times> json) list" where
  "docObjectEach j ks =
     (case docGet j ks of
        Inr (JObject kvs) \<Rightarrow> takeWhile (\<lambda>kv. \<not> isJunk (snd kv)) kvs
      | _ \<Rightarrow> [])"

definition docParser :: "json jsonparser" where
  "docParser = \<lparr>GetString = docGetString, GetFloat = docGetFloat, ArrayEach = docArrayEach,
                 ObjectEach = docObjectEach, string_of_bytes = docBytes\<rparr>"

section \<open>Vocabulary of the properties\<close>

text \<open>The liveness sample \<^verbatim>\<open>up\<close> with the given value.\<close>

definition liveness :: "real \<Rightarrow> ConstMetric" where
  "liveness v = \<lparr>desc = exporterUp, gauge = v, labelValues = []\<rparr>"

text \<open>
  A scrape whose upstream call failed: the request could not be built or sent, the body
  could not be read, or the status is not 200.
\<close>

definition failedFetch :: "'b fetched \<Rightarrow> bool" where
  "failedFetch resp = (case resp of Fetched StatusCode body \<Rightarrow> StatusCode \<noteq> 200 | _ \<Rightarrow> True)"

text \<open>The data sample of the descriptor \<open>name\<close> with the given value and label values.\<close>

definition gaugeOf :: "string \<Rightarrow> real \<Rightarrow> string list \<Rightarrow> ConstMetric" where
  "gaugeOf name v lvs =
     \<lparr>desc = NewDesc (BuildFQName namespace [] name) variableLabels, gauge = v, labelValues = lvs\<rparr>"

text \<open>
  The extraction rules as the \<^verbatim>\<open>switch\<close> of the 3.0 parser has them: the metric
  key and the sub-field its value is read from.
\<close>

definition selectors :: "(string \<times> string) list" where
  "selectors =
     [(''attempts'', ''count''),
      (''bitrate'', ''bps''),
      (''connection_induced_rebuffering_ratio'', ''ratio''),
      (''ended_plays'', ''count''),
      (''exit_before_video_starts'', ''percentage''),
      (''plays'', ''percentage''),
      (''rebuffering_ratio'', ''ratio''),
      (''video_playback_failures'', ''percentage''),
      (''video_start_failures'', ''percentage''),
      (''video_start_time'', ''value'')]"

text \<open>
  A metric entry is well formed when its key has an extraction rule and the sub-field
  of the rule holds a number.
\<close>

definition wellFormedEntry :: "'b jsonparser \<Rightarrow> string \<times> 'b \<Rightarrow> bool" where
  "wellFormedEntry lib kv =
     (case map_of selectors (fst kv) of
        None \<Rightarrow> False
      | Some field \<Rightarrow> err_of (GetFloat lib (snd kv) [field]) = None)"

text \<open>
  A row of the 3.0 data region exposes the full metric set when its dimension value is
  a string (one the client accepts as a label), and its metric entries are well formed
  and carry every recognized key once.
\<close>

definition fullRow :: "'b jsonparser \<Rightarrow> 'b \<times> error option \<Rightarrow> bool" where
  "fullRow lib cb =
     (snd cb = None
      \<and> err_of (GetString lib (fst cb) [''dimension'', ''value'']) = None
      \<and> ValidString (str_val (GetString lib (fst cb) [''dimension'', ''value'']))
      \<and> list_all (wellFormedEntry lib) (ObjectEach lib (fst cb) [''metrics''])
      \<and> distinct (map fst (ObjectEach lib (fst cb) [''metrics'']))
      \<and> set (map fst (ObjectEach lib (fst cb) [''metrics''])) = set (map fst metricDescriptionsTable))"

text \<open>The same for the 2.6 data region, where a row is an array of fifteen numbers.\<close>

definition isNumber :: "'b jsonparser \<Rightarrow> 'b \<times> error option \<Rightarrow> bool" where
  "isNumber lib cb = (snd cb = None \<and> err_of (GetFloat lib (fst cb) []) = None)"

definition fullRow_v26 :: "'b jsonparser \<Rightarrow> 'b \<times> error option \<Rightarrow> bool" where
  "fullRow_v26 lib cb =
     (snd cb = None
      \<and> list_all (isNumber lib) (ArrayEach lib (fst cb) [])
      \<and> length (ArrayEach lib (fst cb) []) = length metricDescriptions_v26)"

definition rowsOf :: "'b jsonparser \<Rightarrow> 'b \<Rightarrow> string \<Rightarrow> ('b \<times> error option) list" where
  "rowsOf lib body fid = ArrayEach lib body [''quality_metriclens'', ''tables'', fid, ''rows'']"

definition fullTable_v26 :: "'b jsonparser \<Rightarrow> 'b \<Rightarrow> nat \<Rightarrow> string \<times> 'b \<Rightarrow> bool" where
  "fullTable_v26 lib body n kv =
     (ValidString (fst kv)
      \<and> length (rowsOf lib body (fst kv)) \<le> n
      \<and> list_all (fullRow_v26 lib) (rowsOf lib body (fst kv)))"

definition isTitle :: "'b jsonparser \<Rightarrow> 'b \<times> error option \<Rightarrow> bool" where
  "isTitle lib cb = (snd cb = None \<and> ValidString (string_of_bytes lib (fst cb)))"

text \<open>
  What the 3.0 parser records for a well-formed entry and for a full row: the value of
  \<open>bitrate\<close> is the zero the metric was created with.
\<close>

definition recorded :: "'b jsonparser \<Rightarrow> string \<times> 'b \<Rightarrow> Metric" where
  "recorded lib kv =
     \<lparr>metricName = fst kv,
      metricValue =
        (if fst kv = ''bitrate'' then 0
         else case map_of selectors (fst kv) of
                None \<Rightarrow> 0
              | Some sub \<Rightarrow> float_val (GetFloat lib (snd kv) [sub]))\<rparr>"

definition parsedRow :: "'b jsonparser \<Rightarrow> 'b \<times> error option \<Rightarrow> Dimension" where
  "parsedRow lib cb =
     \<lparr>dimensionValue = str_val (GetString lib (fst cb) [''dimension'', ''value'']),
      metrics = map (recorded lib) (ObjectEach lib (fst cb) [''metrics''])\<rparr>"

text \<open>What the 2.6 parser records for a row and for the table of a filter.\<close>

definition parsedRow_v26 :: "'b jsonparser \<Rightarrow> 'b \<times> error option \<Rightarrow> Dimension_v26" where
  "parsedRow_v26 lib cb =
     \<lparr>metrics_v26 = foldl (metricValCallback lib) [] (ArrayEach lib (fst cb) [])\<rparr>"

definition parsedTable_v26 :: "'b jsonparser \<Rightarrow> 'b \<Rightarrow> string \<times> 'b \<Rightarrow> FilterTable" where
  "parsedTable_v26 lib body kv =
     foldl (dimensionRowCallback lib) (NewFilterTable (fst kv)) (rowsOf lib body (fst kv))"

text \<open>
  A well-formed 3.0 payload: the filter title is one the client accepts as a label and
  every row of the data region exposes the full metric set. A well-formed 2.6 payload:
  no warm-up flag, titles the client accepts, and for every filter a table of full rows,
  no more rows than titles.
\<close>

definition wellFormed :: "'b jsonparser \<Rightarrow> 'b \<Rightarrow> bool" where
  "wellFormed lib body =
     (ValidString (str_val (GetString lib body [''_meta'', ''filter_info'', ''id'']))
      \<and> list_all (fullRow lib) (ArrayEach lib body [''time_series'', ''[0]'', ''dimensional_data'']))"

definition wellFormed_v26 :: "'b jsonparser \<Rightarrow> 'b \<Rightarrow> bool" where
  "wellFormed_v26 lib body =
     (ArrayEach lib body [''quality_metriclens'', ''meta'', ''filters_warmup''] = []
      \<and> list_all (isTitle lib) (ArrayEach lib body [''quality_metriclens'', ''xvalues''])
      \<and> list_all (fullTable_v26 lib body (length (ArrayEach lib body [''quality_metriclens'', ''xvalues''])))
            (ObjectEach lib body [''quality_metriclens'', ''tables'']))"

text \<open>The number of grouping rows of a 2.6 payload, over all its filters.\<close>

definition rowCount_v26 :: "'b jsonparser \<Rightarrow> 'b \<Rightarrow> nat" where
  "rowCount_v26 lib body =
     sum_list (map (\<lambda>kv. length (rowsOf lib body (fst kv)))
                 (ObjectEach lib body [''quality_metriclens'', ''tables'']))"

section \<open>Responses\<close>

text \<open>A 3.0 response with the given rows of \<open>time_series[0].dimensional_data\<close>.\<close>

definition response :: "json list \<Rightarrow> json" where
  "response rows =
     JObject
       [(''_meta'',
           JObject [(''filter_info'', JObject [(''id'', JString ''myfilter'')]),
                    (''group_by_dimension'', JObject [(''description'', JString ''Browser'')])]),
        (''time_series'', JArray [JObject [(''dimensional_data'', JArray rows)]])]"

text \<open>The same response without its \<open>_meta\<close> object.\<close>

definition response_without_meta :: "json list \<Rightarrow> json" where
  "response_without_meta rows =
     JObject [(''time_series'', JArray [JObject [(''dimensional_data'', JArray rows)]])]"

definition row :: "string \<Rightarrow> (string \<times> json) list \<Rightarrow> json" where
  "row dv ms = JObject [(''dimension'', JObject [(''value'', JString dv)]), (''metrics'', JObject ms)]"

definition field :: "string \<Rightarrow> string \<Rightarrow> real \<Rightarrow> json" where
  "field name tok x = JObject [(name, JNumber tok x)]"

definition attempts_120 :: "string \<times> json" where
  "attempts_120 = (''attempts'', field ''count'' ''120'' 120)"

definition plays_97_5 :: "string \<times> json" where
  "plays_97_5 = (''plays'', field ''percentage'' ''97.5'' 97.5)"

definition full_metrics :: "(string \<times> json) list" where
  "full_metrics =
     [attempts_120,
      (''video_start_failures'', field ''percentage'' ''0.5'' 0.5),
      (''exit_before_video_starts'', field ''percentage'' ''2'' 2),
      plays_97_5,
      (''video_start_time'', field ''value'' ''1.25'' 1.25),
      (''rebuffering_ratio'', field ''ratio'' ''0.25'' 0.25),
      (''bitrate'', field ''bps'' ''5000'' 5000),
      (''video_playback_failures'', field ''percentage'' ''1'' 1),
      (''ended_plays'', field ''count'' ''100'' 100),
      (''connection_induced_rebuffering_ratio'', field ''ratio'' ''0.125'' 0.125)]"

text \<open>A 2.6 response with the given \<open>xvalues\<close> and tables.\<close>

definition response_v26 :: "json list \<Rightarrow> (string \<times> json list) list \<Rightarrow> json" where
  "response_v26 xvalues tables =
     JObject
       [(''quality_metriclens'',
           JObject [(''xvalues'', JArray xvalues),
                    (''tables'', JObject (map (\<lambda>t. (fst t, JObject [(''rows'', JArray (snd t))])) tables))])]"

definition number_one :: json where
  "number_one = JNumber ''1'' 1"

definition full_row_v26 :: json where
  "full_row_v26 = JArray [number_one, number_one, number_one, number_one, number_one, number_one, number_one, number_one, number_one, number_one, number_one, number_one, number_one, number_one, number_one]"

section \<open>Properties\<close>

subsection \<open>Sending appends to the channel\<close>

text \<open>The liveness sample is always accepted by the client.\<close>

lemma up_sent: "send ch (MustNewConstMetric (Some exporterUp) v []) = (ch @ [liveness v], Returns)"
  by (simp add: send_def MustNewConstMetric_def exporterUp_def NewDesc_def liveness_def)

text \<open>
  Every loop of the two emitters only appends to the channel, and what it appends and how
  it ends do not depend on what the channel held.
\<close>

lemma sendMetrics_appends:
  "sendMetrics ch fid dv ms = (ch @ fst (sendMetrics [] fid dv ms), snd (sendMetrics [] fid dv ms))"
proof (induction ms arbitrary: ch)
  case Nil
  show ?case by simp
next
  case (Cons m ms)
  let ?c = "MustNewConstMetric (metricDescriptions (metricName m)) (metricValue m) [fid, dv]"
  show ?case
  proof (cases ?c)
    case (Inl p)
    then show ?thesis by (simp add: send_def)
  next
    case (Inr x)
    from Cons.IH [of "ch @ [x]"] Cons.IH [of "[x]"] Inr show ?thesis
      by (simp add: send_def)
  qed
qed

lemma sendDimensions_appends:
  "sendDimensions ch fid ds = (ch @ fst (sendDimensions [] fid ds), snd (sendDimensions [] fid ds))"
proof (induction ds arbitrary: ch)
  case Nil
  show ?case by simp
next
  case (Cons d ds)
  obtain out ex where o: "sendMetrics [] fid (dimensionValue d) (metrics d) = (out, ex)"
    by (cases "sendMetrics [] fid (dimensionValue d) (metrics d)")
  with sendMetrics_appends [of ch fid "dimensionValue d" "metrics d"]
  have c: "sendMetrics ch fid (dimensionValue d) (metrics d) = (ch @ out, ex)" by simp
  show ?case
  proof (cases ex)
    case Returns
    with o c Cons.IH [of "ch @ out"] Cons.IH [of out] show ?thesis by simp
  next
    case (Fatal m)
    with o c show ?thesis by simp
  next
    case (Panics p)
    with o c show ?thesis by simp
  qed
qed

lemma sendMetrics_v26_appends:
  "sendMetrics_v26 ch fid title k vs
   = (ch @ fst (sendMetrics_v26 [] fid title k vs), snd (sendMetrics_v26 [] fid title k vs))"
proof (induction vs arbitrary: ch k)
  case Nil
  show ?case by simp
next
  case (Cons v vs)
  let ?c = "MustNewConstMetric (Some (metricDescriptions_v26 ! k)) v [fid, title]"
  show ?case
  proof (cases ?c)
    case (Inl p)
    then show ?thesis by (simp add: send_def)
  next
    case (Inr x)
    from Cons.IH [of "ch @ [x]" "Suc k"] Cons.IH [of "[x]" "Suc k"] Inr show ?thesis
      by (simp add: send_def)
  qed
qed

lemma sendDimensions_v26_appends:
  "sendDimensions_v26 ch titles fid j ds
   = (ch @ fst (sendDimensions_v26 [] titles fid j ds), snd (sendDimensions_v26 [] titles fid j ds))"
proof (induction ds arbitrary: ch j)
  case Nil
  show ?case by simp
next
  case (Cons d ds)
  obtain out ex where o: "sendMetrics_v26 [] fid (titles ! j) 0 (metrics_v26 d) = (out, ex)"
    by (cases "sendMetrics_v26 [] fid (titles ! j) 0 (metrics_v26 d)")
  with sendMetrics_v26_appends [of ch fid "titles ! j" 0 "metrics_v26 d"]
  have c: "sendMetrics_v26 ch fid (titles ! j) 0 (metrics_v26 d) = (ch @ out, ex)" by simp
  show ?case
  proof (cases ex)
    case Returns
    with o c Cons.IH [of "ch @ out" "Suc j"] Cons.IH [of out "Suc j"] show ?thesis by simp
  next
    case (Fatal m)
    with o c show ?thesis by simp
  next
    case (Panics p)
    with o c show ?thesis by simp
  qed
qed

lemma sendFilters_appends:
  "sendFilters ch titles fs = (ch @ fst (sendFilters [] titles fs), snd (sendFilters [] titles fs))"
proof (induction fs arbitrary: ch)
  case Nil
  show ?case by simp
next
  case (Cons f fs)
  obtain out ex where o: "sendDimensions_v26 [] titles (filterID f) 0 (dimensions_v26 f) = (out, ex)"
    by (cases "sendDimensions_v26 [] titles (filterID f) 0 (dimensions_v26 f)")
  with sendDimensions_v26_appends [of ch titles "filterID f" 0 "dimensions_v26 f"]
  have c: "sendDimensions_v26 ch titles (filterID f) 0 (dimensions_v26 f) = (ch @ out, ex)" by simp
  show ?case
  proof (cases ex)
    case Returns
    with o c Cons.IH [of "ch @ out"] Cons.IH [of out] show ?thesis by simp
  next
    case (Fatal m)
    with o c show ?thesis by simp
  next
    case (Panics p)
    with o c show ?thesis by simp
  qed
qed

lemma Collect_v30_appends:
  "Collect_v30 lib ch resp = (ch @ fst (Collect_v30 lib [] resp), snd (Collect_v30 lib [] resp))"
proof (cases "getQualityMetriclens lib [] resp")
  case (Fatalln m)
  then have "getQualityMetriclens lib ch resp = Fatalln m"
    by (simp add: getQualityMetriclens_def)
  with Fatalln show ?thesis by (simp add: Collect_v30_def)
next
  case (Done r)
  then have d: "getQualityMetriclens lib ch resp = Done r"
    by (simp add: getQualityMetriclens_def)
  show ?thesis
  proof (cases r)
    case (Inl e)
    with Done d show ?thesis by (simp add: Collect_v30_def up_sent)
  next
    case (Inr data)
    with Done d sendDimensions_appends [of "ch @ [liveness 1]" "filterTitle data" "dimensions data"]
      sendDimensions_appends [of "[liveness 1]" "filterTitle data" "dimensions data"]
    show ?thesis by (simp add: Collect_v30_def up_sent updateMetrics_def)
  qed
qed

lemma Collect_v26_appends:
  "Collect_v26 lib ch resp = (ch @ fst (Collect_v26 lib [] resp), snd (Collect_v26 lib [] resp))"
proof (cases "getQualityMetriclens_v26 lib [] resp")
  case (Inl e)
  then have "getQualityMetriclens_v26 lib ch resp = Inl e"
    by (simp add: getQualityMetriclens_v26_def)
  with Inl show ?thesis by (simp add: Collect_v26_def up_sent)
next
  case (Inr data)
  then have "getQualityMetriclens_v26 lib ch resp = Inr data"
    by (simp add: getQualityMetriclens_v26_def)
  with Inr sendFilters_appends [of "ch @ [liveness 1]" "dimensionTitles data" "filters data"]
      sendFilters_appends [of "[liveness 1]" "dimensionTitles data" "filters data"]
  show ?thesis by (simp add: Collect_v26_def up_sent updateMetrics_v26_def)
qed

subsection \<open>Whole-scrape errors\<close>

text \<open>
  C1. The claim: every whole-scrape error (transport failure, non-200 status, malformed
  payload region) ends that scrape only, and parser and emitter never end the process,
  whatever the payload. What holds: whenever \<^verbatim>\<open>getQualityMetriclens\<close> returns an
  error, \<^verbatim>\<open>Collect\<close> sends the liveness sample 0, nothing else, and returns; and the
  parser does return an error for every failure of the upstream call and every status
  other than 200, in both generations. A malformed data region is no such error in the
  3.0 parser: when the \<open>dimension.value\<close> of the first row cannot be read,
  \<^verbatim>\<open>log.Fatalln\<close> ends the process before anything is sent.
\<close>

theorem C1_scrape_errors_short_circuit:
  "(getQualityMetriclens lib ch resp = Done (Inl err) \<longrightarrow>
      Collect_v30 lib ch resp = (ch @ [liveness 0], Returns))
   \<and> (getQualityMetriclens_v26 lib ch resp = Inl err \<longrightarrow>
      Collect_v26 lib ch resp = (ch @ [liveness 0], Returns))
   \<and> (failedFetch resp \<longrightarrow>
      (\<exists>e. getQualityMetriclens lib ch resp = Done (Inl e))
      \<and> (\<exists>e. getQualityMetriclens_v26 lib ch resp = Inl e))
   \<and> (ArrayEach lib body [''time_series'', ''[0]'', ''dimensional_data''] = (r, None) # rest
      \<and> err_of (GetString lib r [''dimension'', ''value'']) \<noteq> None \<longrightarrow>
      Collect_v30 lib ch (Fetched 200 body)
      = (ch, Fatal ''Could not get time_series[0].dimensional_data.dimension.value''))"
proof (intro conjI impI)
  assume "getQualityMetriclens lib ch resp = Done (Inl err)"
  then show "Collect_v30 lib ch resp = (ch @ [liveness 0], Returns)"
    by (simp add: Collect_v30_def up_sent)
next
  assume "getQualityMetriclens_v26 lib ch resp = Inl err"
  then show "Collect_v26 lib ch resp = (ch @ [liveness 0], Returns)"
    by (simp add: Collect_v26_def up_sent)
next
  assume "failedFetch resp"
  then show "\<exists>e. getQualityMetriclens lib ch resp = Done (Inl e)"
    by (cases resp) (auto simp: failedFetch_def getQualityMetriclens_def parseBody_def split: sum.splits)
next
  assume "failedFetch resp"
  then show "\<exists>e. getQualityMetriclens_v26 lib ch resp = Inl e"
    by (cases resp) (auto simp: failedFetch_def getQualityMetriclens_v26_def parseBody_v26_def split: sum.splits)
next
  assume a: "ArrayEach lib body [''time_series'', ''[0]'', ''dimensional_data''] = (r, None) # rest
      \<and> err_of (GetString lib r [''dimension'', ''value'']) \<noteq> None"
  then have "rowCallback lib [] (r, None) = Fatalln ''Could not get time_series[0].dimensional_data.dimension.value''"
    by (simp add: rowCallback_def Let_def)
  with a have "parseBody lib 200 body = Fatalln ''Could not get time_series[0].dimensional_data.dimension.value''"
    by (simp add: parseBody_def Let_def NewMetricsData_def)
  then show "Collect_v30 lib ch (Fetched 200 body)
      = (ch, Fatal ''Could not get time_series[0].dimensional_data.dimension.value'')"
    by (simp add: Collect_v30_def getQualityMetriclens_def)
qed

theorem C1_scrape_errors_short_circuit_witness:
  "failedFetch (Fetched 500 (JObject [(''name'', JString ''rate_limited'')]) :: json fetched)
   \<and> Collect_v30 docParser [] (Fetched 500 (JObject [(''name'', JString ''rate_limited'')]))
     = ([liveness 0], Returns)
   \<and> Collect_v26 docParser [] (Fetched 500 (JObject [(''name'', JString ''rate_limited'')]))
     = ([liveness 0], Returns)
   \<and> Collect_v30 docParser [] (Fetched 200 (response [JObject [(''metrics'', JObject [])]]))
     = ([], Fatal ''Could not get time_series[0].dimensional_data.dimension.value'')"
proof -
  let ?resp = "Fetched 500 (JObject [(''name'', JString ''rate_limited'')]) :: json fetched"
  let ?body = "response [JObject [(''metrics'', JObject [])]]"
  have f: "failedFetch ?resp"
    by (simp add: failedFetch_def)
  have p: "getQualityMetriclens docParser [] ?resp
           = Done (Inl (New ''Invalid response from API. Reason: rate_limited''))"
    by code_simp
  have q: "getQualityMetriclens_v26 docParser [] ?resp = Inl KeyPathNotFoundError"
    by code_simp
  have r: "ArrayEach docParser ?body [''time_series'', ''[0]'', ''dimensional_data'']
           = (JObject [(''metrics'', JObject [])], None) # []
         \<and> err_of (GetString docParser (JObject [(''metrics'', JObject [])]) [''dimension'', ''value'']) \<noteq> None"
    by code_simp
  note t = C1_scrape_errors_short_circuit [where lib = docParser and ch = "[]"]
  from t [of ?resp "New ''Invalid response from API. Reason: rate_limited''"] p
  have 1: "Collect_v30 docParser [] ?resp = ([liveness 0], Returns)" by simp
  from t [of ?resp KeyPathNotFoundError] q
  have 2: "Collect_v26 docParser [] ?resp = ([liveness 0], Returns)" by simp
  from t [of _ _ ?body "JObject [(''metrics'', JObject [])]" "[]"] r
  have 3: "Collect_v30 docParser [] (Fetched 200 ?body)
     = ([], Fatal ''Could not get time_series[0].dimensional_data.dimension.value'')" by blast
  from f 1 2 3 show ?thesis by blast
qed

text \<open>
  The claim as it stands fails on a 3.0 response whose only row has no \<open>dimension\<close>
  object: the process exits.
\<close>

theorem C1_counterexample:
  "Collect_v30 docParser [] (Fetched 200 (response [JObject [(''metrics'', JObject [])]]))
   = ([], Fatal ''Could not get time_series[0].dimensional_data.dimension.value'')"
  by code_simp

text \<open>
  C6. The claim: for a status other than 200 the scrape fails with an error that carries
  the reason read from the body (field \<open>name\<close> in 3.0, \<open>reason\<close> in 2.6) when it is
  present and the raw body otherwise, and the output is the liveness sample 0 alone.
  What holds: the error carries the reason when \<^verbatim>\<open>GetString\<close> reads the field;
  otherwise it is the error that \<^verbatim>\<open>GetString\<close> returned. The output is as claimed.
\<close>

theorem C6_upstream_error:
  assumes "StatusCode \<noteq> 200"
  shows "getQualityMetriclens lib ch (Fetched StatusCode body)
         = Done (Inl (case GetString lib body [''name''] of
                        Inr reason \<Rightarrow> New (''Invalid response from API. Reason: '' @ reason)
                      | Inl err \<Rightarrow> err))
       \<and> Collect_v30 lib ch (Fetched StatusCode body) = (ch @ [liveness 0], Returns)
       \<and> getQualityMetriclens_v26 lib ch (Fetched StatusCode body)
         = Inl (case GetString lib body [''reason''] of
                  Inr reason \<Rightarrow> New (''Invalid response from API. Reason: '' @ reason)
                | Inl err \<Rightarrow> err)
       \<and> Collect_v26 lib ch (Fetched StatusCode body) = (ch @ [liveness 0], Returns)"
  using assms
  by (simp add: Collect_v30_def Collect_v26_def getQualityMetriclens_def getQualityMetriclens_v26_def
        parseBody_def parseBody_v26_def up_sent split: sum.splits)

theorem C6_upstream_error_witness:
  "(500::int) \<noteq> 200
   \<and> getQualityMetriclens docParser [] (Fetched 500 (JObject [(''name'', JString ''rate_limited'')]))
     = Done (Inl (New ''Invalid response from API. Reason: rate_limited''))
   \<and> Collect_v30 docParser [] (Fetched 500 (JObject [(''name'', JString ''rate_limited'')]))
     = ([liveness 0], Returns)
   \<and> getQualityMetriclens_v26 docParser [] (Fetched 500 (JObject [(''reason'', JString ''rate_limited'')]))
     = Inl (New ''Invalid response from API. Reason: rate_limited'')
   \<and> Collect_v26 docParser [] (Fetched 500 (JObject [(''reason'', JString ''rate_limited'')]))
     = ([liveness 0], Returns)"
proof -
  have h: "(500::int) \<noteq> 200" by simp
  have n: "GetString docParser (JObject [(''name'', JString ''rate_limited'')]) [''name'']
           = Inr ''rate_limited''"
    by code_simp
  have r: "GetString docParser (JObject [(''reason'', JString ''rate_limited'')]) [''reason'']
           = Inr ''rate_limited''"
    by code_simp
  from C6_upstream_error [OF h, of docParser "[]" "JObject [(''name'', JString ''rate_limited'')]"]
       C6_upstream_error [OF h, of docParser "[]" "JObject [(''reason'', JString ''rate_limited'')]"]
  show ?thesis by (simp add: n r)
qed

text \<open>
  For the body \<open>{}\<close> the error is the library's \<open>Key path not found\<close>, which is
  not the body.
\<close>

theorem C6_counterexample:
  "getQualityMetriclens docParser [] (Fetched 500 (JObject []))
     = Done (Inl (New ''Key path not found''))
   \<and> getQualityMetriclens_v26 docParser [] (Fetched 500 (JObject []))
     = Inl (New ''Key path not found'')
   \<and> string_of_bytes docParser (JObject []) = ''{}''"
  by code_simp

subsection \<open>Metric entries of a 3.0 row\<close>

text \<open>
  C2. The claim: a row with K recognized metric keys and some unrecognized ones yields
  exactly K samples, the unrecognized keys being skipped. The 3.0 parser appends a
  metric for every key, recognized or not (the \<^verbatim>\<open>default\<close> case only leaves the
  value at zero). On the row \<open>{attempts: {count: 120}, foo: {count: 1}}\<close> the parsed
  row holds two metrics, and \<^verbatim>\<open>updateMetrics\<close> panics on the second, whose descriptor
  is \<^verbatim>\<open>nil\<close>, after the liveness sample and the first data sample were sent.
\<close>

theorem C2_unrecognized_key_is_kept:
  "getQualityMetriclens docParser []
     (Fetched 200 (response [row ''chrome'' [attempts_120, (''foo'', field ''count'' ''1'' 1)]]))
   = Done (Inr \<lparr>filterTitle = ''myfilter'', dimensionTitle = ''Browser'',
        dimensions = [\<lparr>dimensionValue = ''chrome'',
          metrics = [\<lparr>metricName = ''attempts'', metricValue = 120\<rparr>,
                     \<lparr>metricName = ''foo'', metricValue = 0\<rparr>]\<rparr>]\<rparr>)
   \<and> Collect_v30 docParser []
     (Fetched 200 (response [row ''chrome'' [attempts_120, (''foo'', field ''count'' ''1'' 1)]]))
   = ([liveness 1, gaugeOf ''attempts'' 120 [''myfilter'', ''chrome'']],
      Panics NilPointerDereference)"
  by code_simp

text \<open>
  The 2.6 parser, for comparison, leaves out a value that \<^verbatim>\<open>GetFloat\<close> cannot read
  and goes on with the row.
\<close>

lemma metricValCallback_skips:
  "GetFloat lib v [] = Inl e \<Longrightarrow> metricValCallback lib metricsRow (v, None) = metricsRow"
  by (simp add: metricValCallback_def)

text \<open>
  C4. The claim: when the value sub-field of one recognized metric is absent or of the
  wrong type, exactly that sample is omitted, its siblings are still emitted and the
  scrape succeeds. In the 3.0 parser a failed \<^verbatim>\<open>GetFloat\<close> leaves the value at zero,
  the metric is appended all the same, and the error stays in \<^verbatim>\<open>err\<close>: the callback
  of the next entry of the row finds it and calls \<^verbatim>\<open>log.Fatalln\<close>. So with the
  malformed entry first the process exits before anything is sent; with the malformed
  entry last the scrape succeeds and a sample valued 0 is sent for it.
\<close>

theorem C4_absent_value_field:
  "Collect_v30 docParser []
     (Fetched 200 (response [row ''chrome'' [(''attempts'', JObject []), plays_97_5]]))
   = ([], Fatal ''Could not get time_series[0].dimensional_data.metrics'')
   \<and> Collect_v30 docParser []
     (Fetched 200 (response [row ''chrome'' [plays_97_5, (''attempts'', JObject [])]]))
   = ([liveness 1, gaugeOf ''plays'' 97.5 [''myfilter'', ''chrome''],
       gaugeOf ''attempts'' 0 [''myfilter'', ''chrome'']], Returns)"
  by code_simp

text \<open>
  Nine cases of the \<^verbatim>\<open>switch\<close> store the float that \<^verbatim>\<open>GetFloat\<close> read from the
  sub-field of their key.
\<close>

lemma metricCallback_stores_selected_field:
  assumes "(name, sub) \<in> set selectors" and "name \<noteq> ''bitrate''"
    and "GetFloat lib val [sub] = Inr x"
  shows "metricCallback lib (None, dimension) (name, val)
         = Done (None, dimension\<lparr>metrics := metrics dimension @ [\<lparr>metricName = name, metricValue = x\<rparr>]\<rparr>)"
  using assms
  by (auto simp: selectors_def metricCallback_def assignFloat_def NewMetric_def float_val_def err_of_def)

text \<open>
  C5. The claim: for every recognized metric entry whose selector sub-field holds a
  number (\<open>bps\<close> for the bitrate metric, \<open>count\<close> for attempts, and so on), the
  recorded value is the float read from that sub-field, for every key of the extraction
  rules. The \<open>bitrate\<close> case tests \<^verbatim>\<open>err != nil\<close> where its siblings store on
  success: the value is assigned only when reading \<open>bps\<close> failed, from the zero that
  \<^verbatim>\<open>GetFloat\<close> returns beside its error. So whatever the entry holds, the bitrate is
  recorded as 0; the entry \<open>{bps: 5000}\<close> is read as 5000 by \<^verbatim>\<open>GetFloat\<close>, recorded
  as 0 and sent as \<open>average_bitrate = 0\<close>.
\<close>

theorem C5_bitrate_recorded_as_zero:
  "metricCallback lib (None, dimension) (''bitrate'', val)
     = Done (None, dimension\<lparr>metrics := metrics dimension @ [\<lparr>metricName = ''bitrate'', metricValue = 0\<rparr>]\<rparr>)
   \<and> GetFloat docParser (field ''bps'' ''5000'' 5000) [''bps''] = Inr 5000
   \<and> getQualityMetriclens docParser []
       (Fetched 200 (response [row ''chrome'' [(''bitrate'', field ''bps'' ''5000'' 5000)]]))
     = Done (Inr \<lparr>filterTitle = ''myfilter'', dimensionTitle = ''Browser'',
          dimensions = [\<lparr>dimensionValue = ''chrome'',
            metrics = [\<lparr>metricName = ''bitrate'', metricValue = 0\<rparr>]\<rparr>]\<rparr>)
   \<and> Collect_v30 docParser []
       (Fetched 200 (response [row ''chrome'' [(''bitrate'', field ''bps'' ''5000'' 5000)]]))
     = ([liveness 1, gaugeOf ''average_bitrate'' 0 [''myfilter'', ''chrome'']], Returns)"
proof (intro conjI)
  show "metricCallback lib (None, dimension) (''bitrate'', val)
     = Done (None, dimension\<lparr>metrics := metrics dimension @ [\<lparr>metricName = ''bitrate'', metricValue = 0\<rparr>]\<rparr>)"
    by (cases "GetFloat lib val [''bps'']")
       (simp_all add: metricCallback_def NewMetric_def float_val_def err_of_def)
  show "GetFloat docParser (field ''bps'' ''5000'' 5000) [''bps''] = Inr 5000"
    by code_simp
  show "getQualityMetriclens docParser []
       (Fetched 200 (response [row ''chrome'' [(''bitrate'', field ''bps'' ''5000'' 5000)]]))
     = Done (Inr \<lparr>filterTitle = ''myfilter'', dimensionTitle = ''Browser'',
          dimensions = [\<lparr>dimensionValue = ''chrome'',
            metrics = [\<lparr>metricName = ''bitrate'', metricValue = 0\<rparr>]\<rparr>]\<rparr>)"
    by code_simp
  show "Collect_v30 docParser []
       (Fetched 200 (response [row ''chrome'' [(''bitrate'', field ''bps'' ''5000'' 5000)]]))
     = ([liveness 1, gaugeOf ''average_bitrate'' 0 [''myfilter'', ''chrome'']], Returns)"
    by code_simp
qed

subsection \<open>Titles\<close>

text \<open>
  C7. The claim: when the path of the dimension title or of the filter title is absent,
  the parser sets that title to \<open>Unknown\<close>. For the dimension title it does. For the
  filter title the branch assigns \<open>Unknown\<close> to \<^verbatim>\<open>dimensionName\<close> instead of
  \<^verbatim>\<open>filterId\<close>, so the filter title stays empty, and the empty string is the
  \<open>conviva_filter_id\<close> label of every sample.
\<close>

theorem C7_filter_title_left_empty:
  "getQualityMetriclens docParser [] (Fetched 200 (response_without_meta [row ''chrome'' [attempts_120]]))
   = Done (Inr \<lparr>filterTitle = [], dimensionTitle = ''Unknown'',
        dimensions = [\<lparr>dimensionValue = ''chrome'',
          metrics = [\<lparr>metricName = ''attempts'', metricValue = 120\<rparr>]\<rparr>]\<rparr>)
   \<and> Collect_v30 docParser [] (Fetched 200 (response_without_meta [row ''chrome'' [attempts_120]]))
   = ([liveness 1, gaugeOf ''attempts'' 120 [[], ''chrome'']], Returns)"
  by code_simp

text \<open>
  C3. The claim: when the display titles and the rows of a filter differ in length, the
  emitter sends samples for the first min(titles, rows) positions and drops the rest
  without failing. The 2.6 emitter reads \<^verbatim>\<open>data.dimensionTitles[j]\<close> for every row
  \<open>j\<close> of the filter. With one title and two rows it sends the samples of the first
  row and then panics on the index 1 of a slice of length 1.
\<close>

theorem C3_fewer_titles_than_rows:
  "Collect_v26 docParser []
     (Fetched 200 (response_v26 [JString ''chrome''] [(''1234'', [JArray [number_one], JArray [number_one]])]))
   = ([liveness 1, gaugeOf ''attempts'' 1 [''1234'', ''chrome'']], Panics (IndexOutOfRange 1 1))"
  by code_simp

subsection \<open>Well-formed payloads\<close>

text \<open>
  The 3.0 parser on well-formed entries and full rows: every entry is recorded, no error
  is left pending, and every recorded metric has a descriptor.
\<close>

lemma err_of_None: "err_of r = None \<Longrightarrow> \<exists>x. r = Inr x"
  by (cases r) (simp_all add: err_of_def)

lemma metricCallback_wellFormed:
  assumes "wellFormedEntry lib kv"
  shows "metricCallback lib (None, d) kv = Done (None, d\<lparr>metrics := metrics d @ [recorded lib kv]\<rparr>)"
proof -
  obtain name val where kv: "kv = (name, val)" by (cases kv)
  from assms kv obtain sub where s: "map_of selectors name = Some sub"
    and e: "err_of (GetFloat lib val [sub]) = None"
    by (auto simp: wellFormedEntry_def split: option.splits)
  from e obtain x where x: "GetFloat lib val [sub] = Inr x"
    using err_of_None by blast
  from s have m: "(name, sub) \<in> set selectors" by (rule map_of_SomeD)
  show ?thesis
  proof (cases "name = ''bitrate''")
    case True
    with s have "sub = ''bps''" by (simp add: selectors_def)
    with True x kv show ?thesis
      by (simp add: metricCallback_def recorded_def NewMetric_def err_of_def)
  next
    case False
    with m x have "metricCallback lib (None, d) (name, val)
         = Done (None, d\<lparr>metrics := metrics d @ [\<lparr>metricName = name, metricValue = x\<rparr>]\<rparr>)"
      by (auto simp: selectors_def metricCallback_def assignFloat_def NewMetric_def float_val_def err_of_def)
    moreover from False s x have "recorded lib (name, val) = \<lparr>metricName = name, metricValue = x\<rparr>"
      by (simp add: recorded_def float_val_def)
    ultimately show ?thesis using kv by simp
  qed
qed

lemma each_metricCallback:
  "list_all (wellFormedEntry lib) es \<Longrightarrow>
   each (metricCallback lib) (None, d) es = Done (None, d\<lparr>metrics := metrics d @ map (recorded lib) es\<rparr>)"
proof (induction es arbitrary: d)
  case Nil
  show ?case by simp
next
  case (Cons kv es)
  then have w: "wellFormedEntry lib kv" and r: "list_all (wellFormedEntry lib) es" by simp_all
  from metricCallback_wellFormed [OF w, of d] Cons.IH [OF r] show ?case by simp
qed

lemma rowCallback_fullRow:
  assumes "fullRow lib cb"
  shows "rowCallback lib dims cb = Done (dims @ [parsedRow lib cb])"
proof -
  obtain r e where cb: "cb = (r, e)" by (cases cb)
  from assms cb have e: "e = None"
    and g: "err_of (GetString lib r [''dimension'', ''value'']) = None"
    and w: "list_all (wellFormedEntry lib) (ObjectEach lib r [''metrics''])"
    by (simp_all add: fullRow_def)
  from each_metricCallback [OF w] cb e g show ?thesis
    by (simp add: rowCallback_def parsedRow_def NewDimension_def Let_def)
qed

lemma each_rowCallback:
  "list_all (fullRow lib) cbs \<Longrightarrow>
   each (rowCallback lib) dims cbs = Done (dims @ map (parsedRow lib) cbs)"
proof (induction cbs arbitrary: dims)
  case Nil
  show ?case by simp
next
  case (Cons cb cbs)
  then have f: "fullRow lib cb" and r: "list_all (fullRow lib) cbs" by simp_all
  from rowCallback_fullRow [OF f, of dims] Cons.IH [OF r] show ?case by simp
qed

lemma metricDescriptions_labels:
  "metricDescriptions n = Some de \<Longrightarrow> length (variableLabelNames de) = 2"
  by (auto simp: metricDescriptions_def metricDescriptionsTable_def NewDesc_def variableLabels_def
       split: if_splits)

lemma sendMetrics_recognized:
  assumes "ValidString fid" and "ValidString dv"
  shows "list_all (\<lambda>m. metricDescriptions (metricName m) \<noteq> None) ms \<Longrightarrow>
         \<exists>out. sendMetrics ch fid dv ms = (ch @ out, Returns) \<and> length out = length ms
               \<and> list_all (\<lambda>x. length (labelValues x) = 2) out"
proof (induction ms arbitrary: ch)
  case Nil
  show ?case by simp
next
  case (Cons m ms)
  then obtain de where de: "metricDescriptions (metricName m) = Some de"
    and r: "list_all (\<lambda>m. metricDescriptions (metricName m) \<noteq> None) ms" by auto
  let ?x = "\<lparr>desc = de, gauge = metricValue m, labelValues = [fid, dv]\<rparr>"
  from de assms metricDescriptions_labels [OF de]
  have s: "send ch (MustNewConstMetric (metricDescriptions (metricName m)) (metricValue m) [fid, dv])
           = (ch @ [?x], Returns)"
    by (simp add: send_def MustNewConstMetric_def)
  from Cons.IH [OF r, of "ch @ [?x]"] obtain out
    where o: "sendMetrics (ch @ [?x]) fid dv ms = (ch @ [?x] @ out, Returns)"
      and l: "length out = length ms" and v: "list_all (\<lambda>x. length (labelValues x) = 2) out"
    by auto
  from s o have "sendMetrics ch fid dv (m # ms) = (ch @ (?x # out), Returns)" by simp
  moreover from l have "length (?x # out) = length (m # ms)" by simp
  moreover from v have "list_all (\<lambda>x. length (labelValues x) = 2) (?x # out)" by simp
  ultimately show ?case by blast
qed

lemma sendDimensions_recognized:
  assumes "ValidString fid"
  shows "list_all (\<lambda>d. ValidString (dimensionValue d)
                      \<and> list_all (\<lambda>m. metricDescriptions (metricName m) \<noteq> None) (metrics d)
                      \<and> length (metrics d) = n) ds \<Longrightarrow>
         \<exists>out. sendDimensions ch fid ds = (ch @ out, Returns) \<and> length out = length ds * n
               \<and> list_all (\<lambda>x. length (labelValues x) = 2) out"
proof (induction ds arbitrary: ch)
  case Nil
  show ?case by simp
next
  case (Cons d ds)
  then have v: "ValidString (dimensionValue d)"
    and k: "list_all (\<lambda>m. metricDescriptions (metricName m) \<noteq> None) (metrics d)"
    and n: "length (metrics d) = n"
    and r: "list_all (\<lambda>d. ValidString (dimensionValue d)
                      \<and> list_all (\<lambda>m. metricDescriptions (metricName m) \<noteq> None) (metrics d)
                      \<and> length (metrics d) = n) ds"
    by simp_all
  from sendMetrics_recognized [OF assms v k, of ch] obtain o1
    where 1: "sendMetrics ch fid (dimensionValue d) (metrics d) = (ch @ o1, Returns)"
      and l1: "length o1 = length (metrics d)" and v1: "list_all (\<lambda>x. length (labelValues x) = 2) o1"
    by blast
  from Cons.IH [OF r, of "ch @ o1"] obtain o2
    where 2: "sendDimensions (ch @ o1) fid ds = (ch @ o1 @ o2, Returns)"
      and l2: "length o2 = length ds * n" and v2: "list_all (\<lambda>x. length (labelValues x) = 2) o2"
    by auto
  from 1 2 have "sendDimensions ch fid (d # ds) = (ch @ (o1 @ o2), Returns)" by simp
  moreover from l1 l2 n have "length (o1 @ o2) = length (d # ds) * n" by simp
  moreover from v1 v2 have "list_all (\<lambda>x. length (labelValues x) = 2) (o1 @ o2)" by simp
  ultimately show ?case by blast
qed

lemma distinct_keys: "distinct (map fst metricDescriptionsTable)"
  by (simp add: metricDescriptionsTable_def)

lemma fullRow_parsedRow:
  assumes "fullRow lib cb"
  shows "ValidString (dimensionValue (parsedRow lib cb))
       \<and> list_all (\<lambda>m. metricDescriptions (metricName m) \<noteq> None) (metrics (parsedRow lib cb))
       \<and> length (metrics (parsedRow lib cb)) = length metricDescriptionsTable"
proof -
  let ?es = "ObjectEach lib (fst cb) [''metrics'']"
  from assms have v: "ValidString (str_val (GetString lib (fst cb) [''dimension'', ''value'']))"
    and d: "distinct (map fst ?es)"
    and s: "set (map fst ?es) = set (map fst metricDescriptionsTable)"
    by (simp_all add: fullRow_def)
  from d have "length (map fst ?es) = card (set (map fst ?es))"
    by (simp only: distinct_card)
  also from s have "\<dots> = card (set (map fst metricDescriptionsTable))" by simp
  also from distinct_keys have "\<dots> = length (map fst metricDescriptionsTable)"
    by (simp only: distinct_card)
  finally have l: "length ?es = length metricDescriptionsTable" by simp
  have "metricDescriptions (fst kv) \<noteq> None" if "kv \<in> set ?es" for kv
  proof -
    from that s have "fst kv \<in> fst ` set metricDescriptionsTable" by force
    then show ?thesis by (simp add: metricDescriptions_def map_of_eq_None_iff)
  qed
  then have "list_all (\<lambda>m. metricDescriptions (metricName m) \<noteq> None) (map (recorded lib) ?es)"
    by (simp add: list_all_iff recorded_def)
  with v l show ?thesis by (simp add: parsedRow_def)
qed

lemma wellFormed_samples:
  assumes "wellFormed lib body"
  shows "\<exists>samples. Collect_v30 lib ch (Fetched 200 body) = (ch @ liveness 1 # samples, Returns)
           \<and> length samples
             = length (ArrayEach lib body [''time_series'', ''[0]'', ''dimensional_data''])
               * length metricDescriptionsTable
           \<and> list_all (\<lambda>m. length (labelValues m) = 2) samples"
proof -
  let ?cbs = "ArrayEach lib body [''time_series'', ''[0]'', ''dimensional_data'']"
  let ?fid = "str_val (GetString lib body [''_meta'', ''filter_info'', ''id''])"
  from assms have v: "ValidString ?fid" and f: "list_all (fullRow lib) ?cbs"
    by (simp_all add: wellFormed_def)
  from each_rowCallback [OF f, of "[]"]
  obtain t where p: "getQualityMetriclens lib ch (Fetched 200 body)
      = Done (Inr \<lparr>filterTitle = ?fid, dimensionTitle = t, dimensions = map (parsedRow lib) ?cbs\<rparr>)"
    by (simp add: getQualityMetriclens_def parseBody_def Let_def NewMetricsData_def)
  from f have "list_all (\<lambda>cb. ValidString (dimensionValue (parsedRow lib cb))
                      \<and> list_all (\<lambda>m. metricDescriptions (metricName m) \<noteq> None) (metrics (parsedRow lib cb))
                      \<and> length (metrics (parsedRow lib cb)) = length metricDescriptionsTable) ?cbs"
    by (rule list.pred_mono_strong) (rule fullRow_parsedRow)
  then have "list_all (\<lambda>d. ValidString (dimensionValue d)
                      \<and> list_all (\<lambda>m. metricDescriptions (metricName m) \<noteq> None) (metrics d)
                      \<and> length (metrics d) = length metricDescriptionsTable) (map (parsedRow lib) ?cbs)"
    by (simp only: list.pred_map comp_def)
  from sendDimensions_recognized [OF v this, of "ch @ [liveness 1]"] p show ?thesis
    by (auto simp: Collect_v30_def up_sent updateMetrics_def)
qed

text \<open>
  The 2.6 parser on full tables: every row is recorded with its fifteen values, and the
  emitter stays inside both slices it indexes.
\<close>

lemma foldl_metricValCallback:
  "list_all (isNumber lib) cbs \<Longrightarrow>
   length (foldl (metricValCallback lib) acc cbs) = length acc + length cbs"
proof (induction cbs arbitrary: acc)
  case Nil
  show ?case by simp
next
  case (Cons cb cbs)
  then have n: "isNumber lib cb" and r: "list_all (isNumber lib) cbs" by simp_all
  obtain v e where cb: "cb = (v, e)" by (cases cb)
  from n cb obtain x where "e = None" and "GetFloat lib v [] = Inr x"
    using err_of_None by (auto simp: isNumber_def)
  with cb have "metricValCallback lib acc cb = acc @ [x]"
    by (simp add: metricValCallback_def)
  with Cons.IH [OF r, of "acc @ [x]"] show ?case by simp
qed

lemma foldl_dimensionRowCallback:
  "list_all (\<lambda>cb. snd cb = None) rows \<Longrightarrow>
   foldl (dimensionRowCallback lib) ft rows
   = ft\<lparr>dimensions_v26 := dimensions_v26 ft @ map (parsedRow_v26 lib) rows\<rparr>"
proof (induction rows arbitrary: ft)
  case Nil
  show ?case by simp
next
  case (Cons cb rows)
  then have n: "snd cb = None" and r: "list_all (\<lambda>cb. snd cb = None) rows" by simp_all
  from n have "dimensionRowCallback lib ft cb
               = ft\<lparr>dimensions_v26 := dimensions_v26 ft @ [parsedRow_v26 lib cb]\<rparr>"
    by (cases cb) (simp add: dimensionRowCallback_def parsedRow_v26_def NewDimension_v26_def Let_def)
  with Cons.IH [OF r] show ?case by simp
qed

lemma foldl_filterCallback:
  "foldl (filterCallback lib body) data kvs
   = data\<lparr>filters := filters data @ map (parsedTable_v26 lib body) kvs\<rparr>"
proof (induction kvs arbitrary: data)
  case Nil
  show ?case by simp
next
  case (Cons kv kvs)
  have "filterCallback lib body data kv
        = data\<lparr>filters := filters data @ [parsedTable_v26 lib body kv]\<rparr>"
    by (cases kv) (simp add: filterCallback_def parsedTable_v26_def rowsOf_def Let_def)
  with Cons.IH show ?case by simp
qed

lemma foldl_titleCallback_filters:
  "filters (foldl (titleCallback lib) data cbs) = filters data"
  by (induction cbs arbitrary: data) (simp_all add: titleCallback_def split: prod.splits)

lemma foldl_titleCallback:
  "list_all (isTitle lib) cbs \<Longrightarrow>
   dimensionTitles (foldl (titleCallback lib) data cbs)
   = dimensionTitles data @ map (\<lambda>cb. string_of_bytes lib (fst cb)) cbs"
proof (induction cbs arbitrary: data)
  case Nil
  show ?case by simp
next
  case (Cons cb cbs)
  then have t: "isTitle lib cb" and r: "list_all (isTitle lib) cbs" by simp_all
  from t have "titleCallback lib data cb
               = data\<lparr>dimensionTitles := dimensionTitles data @ [string_of_bytes lib (fst cb)]\<rparr>"
    by (cases cb) (simp add: titleCallback_def isTitle_def)
  with Cons.IH [OF r] show ?case by simp
qed

lemma metricDescriptions_v26_labels:
  "k < length metricDescriptions_v26 \<Longrightarrow> length (variableLabelNames (metricDescriptions_v26 ! k)) = 2"
proof -
  have "list_all (\<lambda>de. length (variableLabelNames de) = 2) metricDescriptions_v26"
    by (simp add: metricDescriptions_v26_def NewDesc_def variableLabels_def)
  then show "k < length metricDescriptions_v26 \<Longrightarrow> ?thesis"
    by (simp add: list_all_length)
qed

lemma sendMetrics_v26_in_range:
  assumes "ValidString fid" and "ValidString title"
  shows "k + length vs \<le> length metricDescriptions_v26 \<Longrightarrow>
         \<exists>out. sendMetrics_v26 ch fid title k vs = (ch @ out, Returns) \<and> length out = length vs
               \<and> list_all (\<lambda>x. length (labelValues x) = 2) out"
proof (induction vs arbitrary: ch k)
  case Nil
  show ?case by simp
next
  case (Cons v vs)
  then have k: "k < length metricDescriptions_v26"
    and r: "Suc k + length vs \<le> length metricDescriptions_v26" by simp_all
  let ?x = "\<lparr>desc = metricDescriptions_v26 ! k, gauge = v, labelValues = [fid, title]\<rparr>"
  from assms metricDescriptions_v26_labels [OF k]
  have s: "send ch (MustNewConstMetric (Some (metricDescriptions_v26 ! k)) v [fid, title])
           = (ch @ [?x], Returns)"
    by (simp add: send_def MustNewConstMetric_def)
  from Cons.IH [OF r, of "ch @ [?x]"] obtain out
    where o: "sendMetrics_v26 (ch @ [?x]) fid title (Suc k) vs = (ch @ [?x] @ out, Returns)"
      and l: "length out = length vs" and v: "list_all (\<lambda>x. length (labelValues x) = 2) out"
    by auto
  from k s o have "sendMetrics_v26 ch fid title k (v # vs) = (ch @ (?x # out), Returns)" by simp
  moreover from l have "length (?x # out) = length (v # vs)" by simp
  moreover from v have "list_all (\<lambda>x. length (labelValues x) = 2) (?x # out)" by simp
  ultimately show ?case by blast
qed

lemma sendDimensions_v26_in_range:
  assumes "ValidString fid" and "list_all ValidString titles"
  shows "j + length ds \<le> length titles \<Longrightarrow>
         list_all (\<lambda>d. length (metrics_v26 d) = length metricDescriptions_v26) ds \<Longrightarrow>
         \<exists>out. sendDimensions_v26 ch titles fid j ds = (ch @ out, Returns)
               \<and> length out = length ds * length metricDescriptions_v26
               \<and> list_all (\<lambda>x. length (labelValues x) = 2) out"
proof (induction ds arbitrary: ch j)
  case Nil
  show ?case by simp
next
  case (Cons d ds)
  then have j: "j < length titles" and r: "Suc j + length ds \<le> length titles"
    and n: "length (metrics_v26 d) = length metricDescriptions_v26"
    and a: "list_all (\<lambda>d. length (metrics_v26 d) = length metricDescriptions_v26) ds"
    by simp_all
  from assms(2) j have t: "ValidString (titles ! j)" by (simp add: list_all_length)
  from n have "0 + length (metrics_v26 d) \<le> length metricDescriptions_v26" by simp
  from sendMetrics_v26_in_range [OF assms(1) t this, of ch] obtain o1
    where 1: "sendMetrics_v26 ch fid (titles ! j) 0 (metrics_v26 d) = (ch @ o1, Returns)"
      and l1: "length o1 = length (metrics_v26 d)"
      and v1: "list_all (\<lambda>x. length (labelValues x) = 2) o1"
    by blast
  from Cons.IH [OF r a, of "ch @ o1"] obtain o2
    where 2: "sendDimensions_v26 (ch @ o1) titles fid (Suc j) ds = (ch @ o1 @ o2, Returns)"
      and l2: "length o2 = length ds * length metricDescriptions_v26"
      and v2: "list_all (\<lambda>x. length (labelValues x) = 2) o2"
    by auto
  from j 1 2 have "sendDimensions_v26 ch titles fid j (d # ds) = (ch @ (o1 @ o2), Returns)" by simp
  moreover from l1 l2 n have "length (o1 @ o2) = length (d # ds) * length metricDescriptions_v26"
    by simp
  moreover from v1 v2 have "list_all (\<lambda>x. length (labelValues x) = 2) (o1 @ o2)" by simp
  ultimately show ?case by blast
qed

lemma sendFilters_in_range:
  assumes "list_all ValidString titles"
  shows "list_all (\<lambda>f. ValidString (filterID f) \<and> length (dimensions_v26 f) \<le> length titles
            \<and> list_all (\<lambda>d. length (metrics_v26 d) = length metricDescriptions_v26) (dimensions_v26 f)) fs \<Longrightarrow>
         \<exists>out. sendFilters ch titles fs = (ch @ out, Returns)
               \<and> length out
                 = sum_list (map (\<lambda>f. length (dimensions_v26 f)) fs) * length metricDescriptions_v26
               \<and> list_all (\<lambda>x. length (labelValues x) = 2) out"
proof (induction fs arbitrary: ch)
  case Nil
  show ?case by simp
next
  case (Cons f fs)
  then have v: "ValidString (filterID f)" and b: "0 + length (dimensions_v26 f) \<le> length titles"
    and n: "list_all (\<lambda>d. length (metrics_v26 d) = length metricDescriptions_v26) (dimensions_v26 f)"
    and r: "list_all (\<lambda>f. ValidString (filterID f) \<and> length (dimensions_v26 f) \<le> length titles
            \<and> list_all (\<lambda>d. length (metrics_v26 d) = length metricDescriptions_v26) (dimensions_v26 f)) fs"
    by simp_all
  from sendDimensions_v26_in_range [OF v assms b n, of ch] obtain o1
    where 1: "sendDimensions_v26 ch titles (filterID f) 0 (dimensions_v26 f) = (ch @ o1, Returns)"
      and l1: "length o1 = length (dimensions_v26 f) * length metricDescriptions_v26"
      and v1: "list_all (\<lambda>x. length (labelValues x) = 2) o1"
    by blast
  from Cons.IH [OF r, of "ch @ o1"] obtain o2
    where 2: "sendFilters (ch @ o1) titles fs = (ch @ o1 @ o2, Returns)"
      and l2: "length o2
               = sum_list (map (\<lambda>f. length (dimensions_v26 f)) fs) * length metricDescriptions_v26"
      and v2: "list_all (\<lambda>x. length (labelValues x) = 2) o2"
    by auto
  from 1 2 have "sendFilters ch titles (f # fs) = (ch @ (o1 @ o2), Returns)" by simp
  moreover from l1 l2
  have "length (o1 @ o2)
        = sum_list (map (\<lambda>f. length (dimensions_v26 f)) (f # fs)) * length metricDescriptions_v26"
    by (simp add: add_mult_distrib)
  moreover from v1 v2 have "list_all (\<lambda>x. length (labelValues x) = 2) (o1 @ o2)" by simp
  ultimately show ?case by blast
qed

lemma fullTable_parsedTable:
  assumes "fullTable_v26 lib body n kv"
  shows "ValidString (filterID (parsedTable_v26 lib body kv))
       \<and> length (dimensions_v26 (parsedTable_v26 lib body kv)) \<le> n
       \<and> list_all (\<lambda>d. length (metrics_v26 d) = length metricDescriptions_v26)
           (dimensions_v26 (parsedTable_v26 lib body kv))
       \<and> length (dimensions_v26 (parsedTable_v26 lib body kv)) = length (rowsOf lib body (fst kv))"
proof -
  let ?rows = "rowsOf lib body (fst kv)"
  from assms have v: "ValidString (fst kv)" and l: "length ?rows \<le> n"
    and f: "list_all (fullRow_v26 lib) ?rows"
    by (simp_all add: fullTable_v26_def)
  from f have "list_all (\<lambda>cb. snd cb = None) ?rows"
    by (rule list.pred_mono_strong) (simp add: fullRow_v26_def)
  from foldl_dimensionRowCallback [OF this, of lib "NewFilterTable (fst kv)"]
  have p: "parsedTable_v26 lib body kv
           = \<lparr>filterID = fst kv, dimensions_v26 = map (parsedRow_v26 lib) ?rows\<rparr>"
    by (simp add: parsedTable_v26_def NewFilterTable_def)
  have "length (metrics_v26 (parsedRow_v26 lib cb)) = length metricDescriptions_v26"
    if "fullRow_v26 lib cb" for cb
    using that foldl_metricValCallback [of lib "ArrayEach lib (fst cb) []" "[]"]
    by (simp add: fullRow_v26_def parsedRow_v26_def)
  with f have "list_all (\<lambda>cb. length (metrics_v26 (parsedRow_v26 lib cb)) = length metricDescriptions_v26) ?rows"
    by (rule list.pred_mono_strong)
  then have "list_all (\<lambda>d. length (metrics_v26 d) = length metricDescriptions_v26)
               (map (parsedRow_v26 lib) ?rows)"
    by (simp only: list.pred_map comp_def)
  with p v l show ?thesis by simp
qed

lemma wellFormed_v26_samples:
  assumes "wellFormed_v26 lib body"
  shows "\<exists>samples. Collect_v26 lib ch (Fetched 200 body) = (ch @ liveness 1 # samples, Returns)
           \<and> length samples = rowCount_v26 lib body * length metricDescriptions_v26
           \<and> list_all (\<lambda>m. length (labelValues m) = 2) samples"
proof -
  let ?ts = "ArrayEach lib body [''quality_metriclens'', ''xvalues'']"
  let ?kvs = "ObjectEach lib body [''quality_metriclens'', ''tables'']"
  let ?titles = "map (\<lambda>cb. string_of_bytes lib (fst cb)) ?ts"
  let ?fs = "map (parsedTable_v26 lib body) ?kvs"
  from assms have w: "ArrayEach lib body [''quality_metriclens'', ''meta'', ''filters_warmup''] = []"
    and t: "list_all (isTitle lib) ?ts"
    and f: "list_all (fullTable_v26 lib body (length ?ts)) ?kvs"
    by (simp_all add: wellFormed_v26_def)
  from w foldl_titleCallback [OF t, of NewQualityMetricLensData]
    foldl_titleCallback_filters [of lib NewQualityMetricLensData ?ts]
  have p: "getQualityMetriclens_v26 lib ch (Fetched 200 body)
           = Inr \<lparr>filters = ?fs, dimensionTitles = ?titles\<rparr>"
    by (simp add: getQualityMetriclens_v26_def parseBody_v26_def Let_def foldl_filterCallback
          NewQualityMetricLensData_def)
  from t have "list_all (\<lambda>cb. ValidString (string_of_bytes lib (fst cb))) ?ts"
    by (rule list.pred_mono_strong) (simp add: isTitle_def)
  then have vt: "list_all ValidString ?titles"
    by (simp only: list.pred_map comp_def)
  have "ValidString (filterID (parsedTable_v26 lib body kv))
         \<and> length (dimensions_v26 (parsedTable_v26 lib body kv)) \<le> length ?titles
         \<and> list_all (\<lambda>d. length (metrics_v26 d) = length metricDescriptions_v26)
             (dimensions_v26 (parsedTable_v26 lib body kv))"
    if "fullTable_v26 lib body (length ?ts) kv" for kv
    using fullTable_parsedTable [OF that] by simp
  with f have "list_all (\<lambda>kv. ValidString (filterID (parsedTable_v26 lib body kv))
         \<and> length (dimensions_v26 (parsedTable_v26 lib body kv)) \<le> length ?titles
         \<and> list_all (\<lambda>d. length (metrics_v26 d) = length metricDescriptions_v26)
             (dimensions_v26 (parsedTable_v26 lib body kv))) ?kvs"
    by (rule list.pred_mono_strong)
  then have ok: "list_all (\<lambda>f. ValidString (filterID f) \<and> length (dimensions_v26 f) \<le> length ?titles
         \<and> list_all (\<lambda>d. length (metrics_v26 d) = length metricDescriptions_v26) (dimensions_v26 f)) ?fs"
    by (simp only: list.pred_map comp_def)
  have "length (dimensions_v26 (parsedTable_v26 lib body kv)) = length (rowsOf lib body (fst kv))"
    if "fullTable_v26 lib body (length ?ts) kv" for kv
    using fullTable_parsedTable [OF that] by simp
  with f have "list_all (\<lambda>kv. length (dimensions_v26 (parsedTable_v26 lib body kv))
                              = length (rowsOf lib body (fst kv))) ?kvs"
    by (rule list.pred_mono_strong)
  then have m: "map (\<lambda>f. length (dimensions_v26 f)) ?fs
                = map (\<lambda>kv. length (rowsOf lib body (fst kv))) ?kvs"
    by (simp add: list_all_iff)
  have c: "sum_list (map (\<lambda>f. length (dimensions_v26 f)) ?fs) = rowCount_v26 lib body"
    by (simp only: m rowCount_v26_def)
  from sendFilters_in_range [OF vt ok, of "ch @ [liveness 1]"] p c show ?thesis
    by (auto simp: Collect_v26_def up_sent updateMetrics_v26_def)
qed

text \<open>
  C8. For every well-formed payload with N grouping rows, each exposing all recognized
  metrics, the scrape sends the liveness sample 1 followed by exactly N times the number
  of recognized metrics data samples (ten descriptors in 3.0, fifteen in 2.6), and
  returns. An empty data region gives the liveness sample 1 and no data sample.
\<close>

theorem C8_full_rows_give_N_times_M_samples:
  "(wellFormed lib body \<longrightarrow>
      (\<exists>samples. Collect_v30 lib ch (Fetched 200 body) = (ch @ liveness 1 # samples, Returns)
         \<and> length samples
           = length (ArrayEach lib body [''time_series'', ''[0]'', ''dimensional_data''])
             * length metricDescriptionsTable
         \<and> list_all (\<lambda>m. length (labelValues m) = 2) samples))
   \<and> (ArrayEach lib body [''time_series'', ''[0]'', ''dimensional_data''] = [] \<longrightarrow>
      Collect_v30 lib ch (Fetched 200 body) = (ch @ [liveness 1], Returns))
   \<and> (wellFormed_v26 lib body \<longrightarrow>
      (\<exists>samples. Collect_v26 lib ch (Fetched 200 body) = (ch @ liveness 1 # samples, Returns)
         \<and> length samples = rowCount_v26 lib body * length metricDescriptions_v26
         \<and> list_all (\<lambda>m. length (labelValues m) = 2) samples))
   \<and> (ArrayEach lib body [''quality_metriclens'', ''meta'', ''filters_warmup''] = []
      \<and> ObjectEach lib body [''quality_metriclens'', ''tables''] = [] \<longrightarrow>
      Collect_v26 lib ch (Fetched 200 body) = (ch @ [liveness 1], Returns))
   \<and> length metricDescriptionsTable = 10 \<and> length metricDescriptions_v26 = 15"
proof (intro conjI impI)
  assume "wellFormed lib body"
  then show "\<exists>samples. Collect_v30 lib ch (Fetched 200 body) = (ch @ liveness 1 # samples, Returns)
         \<and> length samples
           = length (ArrayEach lib body [''time_series'', ''[0]'', ''dimensional_data''])
             * length metricDescriptionsTable
         \<and> list_all (\<lambda>m. length (labelValues m) = 2) samples"
    by (rule wellFormed_samples)
next
  assume "ArrayEach lib body [''time_series'', ''[0]'', ''dimensional_data''] = []"
  then show "Collect_v30 lib ch (Fetched 200 body) = (ch @ [liveness 1], Returns)"
    by (simp add: Collect_v30_def getQualityMetriclens_def parseBody_def Let_def NewMetricsData_def
          up_sent updateMetrics_def)
next
  assume "wellFormed_v26 lib body"
  then show "\<exists>samples. Collect_v26 lib ch (Fetched 200 body) = (ch @ liveness 1 # samples, Returns)
         \<and> length samples = rowCount_v26 lib body * length metricDescriptions_v26
         \<and> list_all (\<lambda>m. length (labelValues m) = 2) samples"
    by (rule wellFormed_v26_samples)
next
  assume "ArrayEach lib body [''quality_metriclens'', ''meta'', ''filters_warmup''] = []
      \<and> ObjectEach lib body [''quality_metriclens'', ''tables''] = []"
  then show "Collect_v26 lib ch (Fetched 200 body) = (ch @ [liveness 1], Returns)"
    by (simp add: Collect_v26_def getQualityMetriclens_v26_def parseBody_v26_def Let_def
          foldl_titleCallback_filters NewQualityMetricLensData_def up_sent updateMetrics_v26_def)
next
  show "length metricDescriptionsTable = 10"
    by (simp add: metricDescriptionsTable_def)
  show "length metricDescriptions_v26 = 15"
    by (simp add: metricDescriptions_v26_def)
qed

theorem C8_full_rows_give_N_times_M_samples_witness:
  "wellFormed docParser (response [row ''chrome'' full_metrics, row ''firefox'' full_metrics])
   \<and> length (ArrayEach docParser (response [row ''chrome'' full_metrics, row ''firefox'' full_metrics])
        [''time_series'', ''[0]'', ''dimensional_data'']) = 2
   \<and> (\<exists>samples. Collect_v30 docParser []
          (Fetched 200 (response [row ''chrome'' full_metrics, row ''firefox'' full_metrics]))
        = (liveness 1 # samples, Returns) \<and> length samples = 20)
   \<and> ArrayEach docParser (response []) [''time_series'', ''[0]'', ''dimensional_data''] = []
   \<and> Collect_v30 docParser [] (Fetched 200 (response [])) = ([liveness 1], Returns)
   \<and> wellFormed_v26 docParser (response_v26 [JString ''chrome''] [(''1234'', [full_row_v26])])
   \<and> rowCount_v26 docParser (response_v26 [JString ''chrome''] [(''1234'', [full_row_v26])]) = 1
   \<and> (\<exists>samples. Collect_v26 docParser []
          (Fetched 200 (response_v26 [JString ''chrome''] [(''1234'', [full_row_v26])]))
        = (liveness 1 # samples, Returns) \<and> length samples = 15)
   \<and> ObjectEach docParser (response_v26 [] []) [''quality_metriclens'', ''tables''] = []
   \<and> Collect_v26 docParser [] (Fetched 200 (response_v26 [] [])) = ([liveness 1], Returns)"
proof -
  let ?b = "response [row ''chrome'' full_metrics, row ''firefox'' full_metrics]"
  let ?c = "response_v26 [JString ''chrome''] [(''1234'', [full_row_v26])]"
  note t = C8_full_rows_give_N_times_M_samples [where lib = docParser and ch = "[]"]
  have w: "wellFormed docParser ?b"
    by code_simp
  have n: "length (ArrayEach docParser ?b [''time_series'', ''[0]'', ''dimensional_data'']) = 2"
    by code_simp
  have e: "ArrayEach docParser (response []) [''time_series'', ''[0]'', ''dimensional_data''] = []"
    by code_simp
  have w': "wellFormed_v26 docParser ?c"
    by code_simp
  have n': "rowCount_v26 docParser ?c = 1"
    by code_simp
  have e': "ArrayEach docParser (response_v26 [] []) [''quality_metriclens'', ''meta'', ''filters_warmup''] = []
      \<and> ObjectEach docParser (response_v26 [] []) [''quality_metriclens'', ''tables''] = []"
    by code_simp
  from t [of ?b] w n
  have 1: "\<exists>samples. Collect_v30 docParser [] (Fetched 200 ?b) = (liveness 1 # samples, Returns)
             \<and> length samples = 20"
    by auto
  from t [of "response []"] e
  have 2: "Collect_v30 docParser [] (Fetched 200 (response [])) = ([liveness 1], Returns)"
    by simp
  from t [of ?c] w' n'
  have 3: "\<exists>samples. Collect_v26 docParser [] (Fetched 200 ?c) = (liveness 1 # samples, Returns)
             \<and> length samples = 15"
    by auto
  from t [of "response_v26 [] []"] e'
  have 4: "Collect_v26 docParser [] (Fetched 200 (response_v26 [] [])) = ([liveness 1], Returns)"
    by simp
  from w n 1 e 2 w' n' 3 e' 4 show ?thesis by blast
qed

subsection \<open>A 2.6 body without warm-up flags\<close>

text \<open>
  C10. In the 2.6 pipeline, a 200 response in which the library finds no element of
  \<open>quality_metriclens.meta.filters_warmup\<close> is never a parse error, whatever else the
  body holds: the parser returns a result and the scrape sends the liveness sample 1
  first. When the library finds no title and no table either, as in a body that is not
  JSON at all, the result is empty and the liveness sample 1 is all that is sent.
\<close>

theorem C10_no_warmup_never_fails:
  assumes "ArrayEach lib body [''quality_metriclens'', ''meta'', ''filters_warmup''] = []"
  shows "(\<exists>data. getQualityMetriclens_v26 lib ch (Fetched 200 body) = Inr data)
       \<and> (\<exists>samples ex. Collect_v26 lib ch (Fetched 200 body) = (ch @ liveness 1 # samples, ex))
       \<and> (ArrayEach lib body [''quality_metriclens'', ''xvalues''] = []
          \<and> ObjectEach lib body [''quality_metriclens'', ''tables''] = [] \<longrightarrow>
          getQualityMetriclens_v26 lib ch (Fetched 200 body) = Inr \<lparr>filters = [], dimensionTitles = []\<rparr>
          \<and> Collect_v26 lib ch (Fetched 200 body) = (ch @ [liveness 1], Returns))"
proof (intro conjI impI)
  from assms obtain data where d: "getQualityMetriclens_v26 lib ch (Fetched 200 body) = Inr data"
    by (simp add: getQualityMetriclens_v26_def parseBody_v26_def Let_def)
  then show "\<exists>data. getQualityMetriclens_v26 lib ch (Fetched 200 body) = Inr data" ..
  from d sendFilters_appends [of "ch @ [liveness 1]" "dimensionTitles data" "filters data"]
  show "\<exists>samples ex. Collect_v26 lib ch (Fetched 200 body) = (ch @ liveness 1 # samples, ex)"
    by (simp add: Collect_v26_def up_sent updateMetrics_v26_def)
next
  assume e: "ArrayEach lib body [''quality_metriclens'', ''xvalues''] = []
          \<and> ObjectEach lib body [''quality_metriclens'', ''tables''] = []"
  with assms
  have p: "getQualityMetriclens_v26 lib ch (Fetched 200 body) = Inr \<lparr>filters = [], dimensionTitles = []\<rparr>"
    by (simp add: getQualityMetriclens_v26_def parseBody_v26_def Let_def NewQualityMetricLensData_def)
  then show "getQualityMetriclens_v26 lib ch (Fetched 200 body) = Inr \<lparr>filters = [], dimensionTitles = []\<rparr>" .
  from p show "Collect_v26 lib ch (Fetched 200 body) = (ch @ [liveness 1], Returns)"
    by (simp add: Collect_v26_def up_sent updateMetrics_v26_def)
qed

theorem C10_no_warmup_never_fails_witness:
  "ArrayEach docParser (JJunk ''<html>Bad gateway</html>'') [''quality_metriclens'', ''meta'', ''filters_warmup''] = []
   \<and> ArrayEach docParser (JJunk ''<html>Bad gateway</html>'') [''quality_metriclens'', ''xvalues''] = []
   \<and> ObjectEach docParser (JJunk ''<html>Bad gateway</html>'') [''quality_metriclens'', ''tables''] = []
   \<and> getQualityMetriclens_v26 docParser [] (Fetched 200 (JJunk ''<html>Bad gateway</html>''))
     = Inr \<lparr>filters = [], dimensionTitles = []\<rparr>
   \<and> Collect_v26 docParser [] (Fetched 200 (JJunk ''<html>Bad gateway</html>'')) = ([liveness 1], Returns)"
proof -
  let ?b = "JJunk ''<html>Bad gateway</html>''"
  have w: "ArrayEach docParser ?b [''quality_metriclens'', ''meta'', ''filters_warmup''] = []"
    by code_simp
  have x: "ArrayEach docParser ?b [''quality_metriclens'', ''xvalues''] = []"
    by code_simp
  have t: "ObjectEach docParser ?b [''quality_metriclens'', ''tables''] = []"
    by code_simp
  from C10_no_warmup_never_fails [OF w, of "[]"] x t w show ?thesis by simp
qed

end
